theory Spec2Isabelle
  imports Complex_Main
begin

section \<open>Python values shared by the modules\<close>

text \<open>
  The repository is Python on top of numpy.  Floating-point numbers are modelled by
  the reals (exact arithmetic); the special values a numpy division can produce
  (\<open>inf\<close>, \<open>nan\<close>) are made explicit where the code relies on them, and the
  library routines whose result hinges on rounding are taken as given.  Every
  exception the modelled code can raise is a value of \<open>py_error\<close>; a function that
  can raise returns \<open>py_error + 'a\<close> with \<open>Inl\<close> for the exception.
\<close>

datatype value_error_msg =
    InvalidPixelsize string int real
  | CannotConvertNaN

datatype py_error =
    LinAlgError
  | ValueError value_error_msg
  | KeyError
  | NameError string
  | UnboundLocalError string
  | ZeroDivisionError
  | OverflowError
  | TypeError
  | IOError
  | AxisError
  | AttributeError

type_synonym vec2 = "real \<times> real"

text \<open>A 2x2 array, row by row.\<close>

type_synonym mat2 = "(real \<times> real) \<times> (real \<times> real)"

definition vsub :: "vec2 \<Rightarrow> vec2 \<Rightarrow> vec2" where
  "vsub u v = (fst u - fst v, snd u - snd v)"

definition vadd :: "vec2 \<Rightarrow> vec2 \<Rightarrow> vec2" where
  "vadd u v = (fst u + fst v, snd u + snd v)"

text \<open>\<open>v - 1024\<close> and \<open>v + 1024\<close> on an array: the scalar is broadcast.\<close>

definition vsub_scalar :: "vec2 \<Rightarrow> real \<Rightarrow> vec2" where
  "vsub_scalar v c = (fst v - c, snd v - c)"

definition vadd_scalar :: "vec2 \<Rightarrow> real \<Rightarrow> vec2" where
  "vadd_scalar v c = (fst v + c, snd v + c)"

text \<open>\<open>np.dot(v, m)\<close> for a vector and a 2x2 array: the row vector times the matrix.\<close>

definition np_dot :: "vec2 \<Rightarrow> mat2 \<Rightarrow> vec2" where
  "np_dot v m =
     (fst v * fst (fst m) + snd v * fst (snd m),
      fst v * snd (fst m) + snd v * snd (snd m))"

text \<open>\<open>np.matmul(m, v)\<close>: the matrix times the column vector.\<close>

definition np_matmul :: "mat2 \<Rightarrow> vec2 \<Rightarrow> vec2" where
  "np_matmul m v =
     (fst (fst m) * fst v + snd (fst m) * snd v,
      fst (snd m) * fst v + snd (snd m) * snd v)"

definition det2 :: "mat2 \<Rightarrow> real" where
  "det2 m = fst (fst m) * snd (snd m) - snd (fst m) * fst (snd m)"

text \<open>\<open>np.linalg.inv\<close> raises \<open>LinAlgError\<close> on a singular matrix.\<close>

definition np_linalg_inv :: "mat2 \<Rightarrow> py_error + mat2" where
  "np_linalg_inv m =
     (if det2 m = 0 then Inl LinAlgError
      else Inr ((snd (snd m) / det2 m, - snd (fst m) / det2 m),
                (- fst (snd m) / det2 m, fst (fst m) / det2 m)))"

text \<open>Sequencing of calls that can raise: the first exception wins.\<close>

definition and_then :: "py_error + 'a \<Rightarrow> ('a \<Rightarrow> py_error + 'b) \<Rightarrow> py_error + 'b" where
  "and_then r f = (case r of Inl e \<Rightarrow> Inl e | Inr x \<Rightarrow> f x)"

section \<open>calibrate\_stage\_lowmag: the class CalibStage\<close>

record CalibStage =
  has_data :: bool
  rotation :: mat2
  translation :: vec2
  reference_position :: vec2

text \<open>
  The four private conversions take \<open>r\<close>, \<open>t\<close> and \<open>reference_pos\<close> explicitly;
  each of them that needs the inverse of \<open>r\<close> computes it itself, and so raises on a
  singular \<open>r\<close>.
\<close>

definition reference_setting_to_pixelcoord_impl ::
    "vec2 \<Rightarrow> vec2 \<Rightarrow> mat2 \<Rightarrow> vec2 \<Rightarrow> vec2 \<Rightarrow> py_error + vec2" where
  "reference_setting_to_pixelcoord_impl px_ref image_pos r t reference_pos =
     and_then (np_linalg_inv r) (\<lambda>r_i.
       let vect = vsub image_pos reference_pos
       in Inr (vsub px_ref (np_dot (vsub vect t) r_i)))"

definition pixelcoord_to_reference_setting_impl ::
    "vec2 \<Rightarrow> vec2 \<Rightarrow> mat2 \<Rightarrow> vec2 \<Rightarrow> vec2 \<Rightarrow> py_error + vec2" where
  "pixelcoord_to_reference_setting_impl px image_pos r t reference_pos =
     and_then (np_linalg_inv r) (\<lambda>r_i.
       let vect = vsub image_pos reference_pos
       in Inr (vadd (np_dot (vsub vect t) r_i) px))"

definition pixelcoord_to_stagepos_impl ::
    "vec2 \<Rightarrow> vec2 \<Rightarrow> mat2 \<Rightarrow> vec2 \<Rightarrow> vec2 \<Rightarrow> py_error + vec2" where
  "pixelcoord_to_stagepos_impl px image_pos r t reference_pos =
     and_then (pixelcoord_to_reference_setting_impl px image_pos r t reference_pos) (\<lambda>px_ref.
       Inr (vadd (vadd (np_dot (vsub_scalar px_ref 1024) r) t) reference_pos))"

definition stagepos_to_pixelcoord_impl ::
    "vec2 \<Rightarrow> vec2 \<Rightarrow> mat2 \<Rightarrow> vec2 \<Rightarrow> vec2 \<Rightarrow> py_error + vec2" where
  "stagepos_to_pixelcoord_impl stagepos image_pos r t reference_pos =
     and_then (np_linalg_inv r) (\<lambda>r_i.
       let px_ref = vadd_scalar (np_dot (vsub (vsub stagepos t) reference_pos) r_i) 1024
       in reference_setting_to_pixelcoord_impl px_ref image_pos r t reference_pos)"

definition reference_setting_to_pixelcoord :: "CalibStage \<Rightarrow> vec2 \<Rightarrow> vec2 \<Rightarrow> py_error + vec2" where
  "reference_setting_to_pixelcoord self px_ref image_pos =
     reference_setting_to_pixelcoord_impl px_ref image_pos
       (rotation self) (translation self) (reference_position self)"

definition pixelcoord_to_reference_setting :: "CalibStage \<Rightarrow> vec2 \<Rightarrow> vec2 \<Rightarrow> py_error + vec2" where
  "pixelcoord_to_reference_setting self px image_pos =
     pixelcoord_to_reference_setting_impl px image_pos
       (rotation self) (translation self) (reference_position self)"

definition pixelcoord_to_stagepos :: "CalibStage \<Rightarrow> vec2 \<Rightarrow> vec2 \<Rightarrow> py_error + vec2" where
  "pixelcoord_to_stagepos self px image_pos =
     pixelcoord_to_stagepos_impl px image_pos
       (rotation self) (translation self) (reference_position self)"

definition stagepos_to_pixelcoord :: "CalibStage \<Rightarrow> vec2 \<Rightarrow> vec2 \<Rightarrow> py_error + vec2" where
  "stagepos_to_pixelcoord self stagepos image_pos =
     stagepos_to_pixelcoord_impl stagepos image_pos
       (rotation self) (translation self) (reference_position self)"

text \<open>The constructor \<open>CalibStage(rotation, translation, reference_position)\<close>.\<close>

definition CalibStage_init :: "mat2 \<Rightarrow> vec2 \<Rightarrow> vec2 \<Rightarrow> CalibStage" where
  "CalibStage_init r t reference_pos =
     \<lparr>has_data = False, rotation = r, translation = t, reference_position = reference_pos\<rparr>"

section \<open>calibrate\_stagematrix: the outlier filter\<close>

text \<open>
  A numpy float: a finite value, an infinity or not-a-number.  Every finite double is
  a real number, and the absolute value and the comparison of doubles are exact.
\<close>

datatype npfloat = Fin real | PosInf | NegInf | NaN

fun np_abs :: "npfloat \<Rightarrow> npfloat" where
  "np_abs (Fin x) = Fin \<bar>x\<bar>"
| "np_abs PosInf = PosInf"
| "np_abs NegInf = PosInf"
| "np_abs NaN = NaN"

text \<open>\<open>v < threshold\<close> for a finite threshold: every comparison with \<open>nan\<close> is false.\<close>

fun np_less :: "npfloat \<Rightarrow> real \<Rightarrow> bool" where
  "np_less (Fin x) t = (x < t)"
| "np_less PosInf t = False"
| "np_less NegInf t = True"
| "np_less NaN t = False"

text \<open>
  The two library routines the filter calls: \<open>np.linalg.norm(data, axis=1)\<close>, which
  can raise, and \<open>scipy.stats.zscore\<close>.  They compute in double precision, their
  rounding and their treatment of constant input differ between releases, and they are
  not part of the repository; the filter takes what they return.
\<close>

record numlib =
  linalg_norm_axis1 :: "vec2 list \<Rightarrow> py_error + real list"
  stats_zscore :: "real list \<Rightarrow> npfloat list"

text \<open>
  \<open>get_outlier_filter\<close> returns the boolean selection and, as second component, what it
  prints: \<open>Some n\<close> for the line \<open>Filtered n outliers.\<close>, \<open>None\<close> when nothing is printed.
\<close>

definition get_outlier_filter ::
    "numlib \<Rightarrow> vec2 list \<Rightarrow> real \<Rightarrow> py_error + (bool list \<times> nat option)" where
  "get_outlier_filter lib data threshold =
     and_then (linalg_norm_axis1 lib data) (\<lambda>norms.
       let zs = stats_zscore lib norms;
           sel = map (\<lambda>z. np_less (np_abs z) threshold) zs
       in Inr (sel,
               if \<not> list_all (\<lambda>b. b) sel
               then Some (length sel - length (filter (\<lambda>b. b) sel))
               else None))"

text \<open>\<open>np.array(xs)[sel]\<close> with a boolean array \<open>sel\<close> of the same length.\<close>

definition np_mask :: "'a list \<Rightarrow> bool list \<Rightarrow> 'a list" where
  "np_mask xs sel = map fst (filter snd (zip xs sel))"

section \<open>calibrate\_stagematrix: the calibration runs\<close>

text \<open>
  The microscope is reached through \<open>ctrl\<close>.  The model keeps the part of its state
  the module reads and writes, and a log of every command sent to the hardware, the
  file system and the console, oldest first.  The stage is taken to reach the position
  it is sent to.
\<close>

text \<open>The file \<open>drc / f'{j}_{i}.tiff'\<close>: the directory, \<open>j\<close> and \<open>i\<close>.\<close>

type_synonym tiff_name = "string \<times> nat \<times> nat"

datatype message =
    PrintException py_error
  | PrintFiltered nat
  | PrintCalibrating string int
  | PrintUpdate
  | PrintCfg

datatype hw_event =
    SetMode string
  | SetMagnification int
  | StageMoveBacklash real real
  | StageSetXY real real
  | CameraGetImage
  | WriteTiff tiff_name
  | ReadTiff tiff_name
  | MakeWorkSubdirectory string
  | DumpYaml
  | Print message

record tem =
  tem_mode :: string
  tem_magnification :: int
  tem_stage_xy :: vec2
  tem_binning :: nat
  tem_events :: "hw_event list"

definition emit :: "hw_event \<Rightarrow> tem \<Rightarrow> tem" where
  "emit e ctrl = ctrl\<lparr>tem_events := tem_events ctrl @ [e]\<rparr>"

text \<open>
  What the module takes from outside the source files: the camera, the image files,
  \<open>rotate_image\<close>, \<open>register_translation\<close> (its first result, the shift),
  \<open>fit_affine_transformation\<close> (module \<open>fit\<close>, the fields \<open>r\<close> and \<open>t\<close> of its
  result), \<open>get_new_work_subdirectory\<close> and the configuration tables
  \<open>config.camera.dimensions\<close>, \<open>config.calibration[mode]['pixelsize']\<close> and
  \<open>config.microscope.ranges\<close>, and the numerical library of the outlier filter.  A
  Python dict is an association list.
\<close>

record 'img stage_env =
  env_numlib :: numlib
  cam_getImage :: "tem \<Rightarrow> 'img"
  read_tiff :: "tiff_name \<Rightarrow> py_error + 'img"
  rotate_image :: "'img \<Rightarrow> string \<Rightarrow> int \<Rightarrow> 'img"
  register_translation :: "'img \<Rightarrow> 'img \<Rightarrow> vec2"
  fit_affine_transformation :: "vec2 list \<Rightarrow> vec2 list \<Rightarrow> py_error + (mat2 \<times> vec2)"
  get_new_work_subdirectory :: "string \<Rightarrow> string"
  config_camera_dimensions :: "int \<times> int"
  config_calibration_pixelsize :: "(string \<times> (int \<times> real) list) list"
  config_microscope_ranges :: "(string \<times> int list) list"

text \<open>
  The module's global names.  \<open>write\<close> is bound to \<open>False\<close> at the top of the file.
  \<open>drcs\<close> and \<open>stagematrix_to_pixelsize\<close> are used by \<open>calibrate_stage_all\<close> but the
  file neither defines nor imports them: \<open>None\<close> stands for a name that is not bound,
  and reading it raises \<open>NameError\<close>.
\<close>

record module_globals =
  g_write :: bool
  g_drcs :: "(string \<times> (int \<times> string) list) list option"
  g_stagematrix_to_pixelsize :: "(mat2 \<Rightarrow> real) option"

definition module_as_written :: module_globals where
  "module_as_written =
     \<lparr>g_write = False, g_drcs = None, g_stagematrix_to_pixelsize = None\<rparr>"

text \<open>Truth value of \<open>drc\<close> (\<open>None\<close>, a string or a path), of \<open>mode\<close> and of \<open>mag\<close>.\<close>

definition truthy_str :: "string option \<Rightarrow> bool" where
  "truthy_str s = (case s of None \<Rightarrow> False | Some x \<Rightarrow> x \<noteq> [])"

definition truthy_int :: "int option \<Rightarrow> bool" where
  "truthy_int n = (case n of None \<Rightarrow> False | Some x \<Rightarrow> x \<noteq> 0)"

definition getImage ::
    "module_globals \<Rightarrow> 'img stage_env \<Rightarrow> tem \<Rightarrow> string option \<Rightarrow> nat \<Rightarrow> nat \<Rightarrow> string \<Rightarrow> int
       \<Rightarrow> (py_error + 'img) \<times> tem" where
  "getImage g env ctrl drc j i mode mag =
     (if g_write g then
        (let img = cam_getImage env ctrl;
             ctrl1 = emit CameraGetImage ctrl
         in if truthy_str drc
            then (Inr img, emit (WriteTiff (the drc, j, i)) ctrl1)
            else (Inr img, ctrl1))
      else if \<not> truthy_str drc then (Inl TypeError, ctrl)
      else (case read_tiff env (the drc, j, i) of
              Inl e \<Rightarrow> (Inl e, ctrl)
            | Inr img \<Rightarrow>
                (Inr (rotate_image env img mode mag), emit (ReadTiff (the drc, j, i)) ctrl)))"

text \<open>The inner loop \<open>for j in range(1, n_steps)\<close> of one range.\<close>

fun steps_loop ::
    "module_globals \<Rightarrow> 'img stage_env \<Rightarrow> string option \<Rightarrow> nat \<Rightarrow> string \<Rightarrow> int \<Rightarrow> vec2
       \<Rightarrow> nat list \<Rightarrow> tem \<Rightarrow> 'img \<Rightarrow> ('img \<times> 'img) list \<Rightarrow> vec2 list
       \<Rightarrow> (py_error + (('img \<times> 'img) list \<times> vec2 list)) \<times> tem" where
  "steps_loop g env drc i mode mag step [] ctrl last_img pairs stage_shifts =
     (Inr (pairs, stage_shifts), ctrl)"
| "steps_loop g env drc i mode mag step (j # js) ctrl last_img pairs stage_shifts =
     (let new_x_pos = fst (tem_stage_xy ctrl) + fst step;
          new_y_pos = snd (tem_stage_xy ctrl) + snd step;
          ctrl1 = emit (StageMoveBacklash new_x_pos new_y_pos)
                    (ctrl\<lparr>tem_stage_xy := (new_x_pos, new_y_pos)\<rparr>)
      in case getImage g env ctrl1 drc j i mode mag of
           (Inl e, ctrl2) \<Rightarrow> (Inl e, ctrl2)
         | (Inr img, ctrl2) \<Rightarrow>
             steps_loop g env drc i mode mag step js ctrl2 img
               (pairs @ [(last_img, img)]) (stage_shifts @ [step]))"

text \<open>The outer loop \<open>for i, (n_steps, step) in enumerate(args)\<close>.\<close>

fun ranges_loop ::
    "module_globals \<Rightarrow> 'img stage_env \<Rightarrow> string option \<Rightarrow> string \<Rightarrow> int \<Rightarrow> vec2
       \<Rightarrow> (nat \<times> int \<times> vec2) list \<Rightarrow> tem \<Rightarrow> ('img \<times> 'img) list \<Rightarrow> vec2 list
       \<Rightarrow> (py_error + (('img \<times> 'img) list \<times> vec2 list)) \<times> tem" where
  "ranges_loop g env drc mode mag origin [] ctrl pairs stage_shifts =
     (Inr (pairs, stage_shifts), ctrl)"
| "ranges_loop g env drc mode mag origin ((i, n_steps, step) # rest) ctrl pairs stage_shifts =
     (case getImage g env ctrl drc 0 i mode mag of
        (Inl e, ctrl1) \<Rightarrow> (Inl e, ctrl1)
      | (Inr last_img, ctrl1) \<Rightarrow>
          (case steps_loop g env drc i mode mag step [1 ..< nat n_steps] ctrl1 last_img
                  pairs stage_shifts of
             (Inl e, ctrl2) \<Rightarrow> (Inl e, ctrl2)
           | (Inr (pairs', stage_shifts'), ctrl2) \<Rightarrow>
               ranges_loop g env drc mode mag origin rest
                 (emit (StageSetXY (fst origin) (snd origin)) (ctrl2\<lparr>tem_stage_xy := origin\<rparr>))
                 pairs' stage_shifts'))"

definition mat_div :: "mat2 \<Rightarrow> real \<Rightarrow> mat2" where
  "mat_div r c = ((fst (fst r) / c, snd (fst r) / c), (fst (snd r) / c, snd (snd r) / c))"

text \<open>
  \<open>calibrate_stage_from_stagepos(ctrl, *args, plot, drc)\<close>.  With \<open>plot\<close> the fitted
  matrix is inverted for the scatter plot, which can raise.  The binning of a camera
  is positive; the last line divides by it.
\<close>

definition calibrate_stage_from_stagepos ::
    "module_globals \<Rightarrow> 'img stage_env \<Rightarrow> tem \<Rightarrow> (int \<times> vec2) list \<Rightarrow> bool \<Rightarrow> string option
       \<Rightarrow> (py_error + mat2) \<times> tem" where
  "calibrate_stage_from_stagepos g env ctrl args plot drc =
     (let origin = tem_stage_xy ctrl;
          mag = tem_magnification ctrl;
          mode = tem_mode ctrl;
          binning = tem_binning ctrl
      in case ranges_loop g env drc mode mag origin (zip [0 ..< length args] args) ctrl [] [] of
           (Inl e, ctrl1) \<Rightarrow> (Inl e, ctrl1)
         | (Inr (pairs, stage_shifts), ctrl1) \<Rightarrow>
             (let translations = map (\<lambda>(img0, img1). register_translation env img0 img1) pairs
              in case get_outlier_filter (env_numlib env) translations 2 of
                   Inl e \<Rightarrow> (Inl e, ctrl1)
                 | Inr (sel, printed) \<Rightarrow>
                     (let ctrl2 = (case printed of None \<Rightarrow> ctrl1
                                   | Some n \<Rightarrow> emit (Print (PrintFiltered n)) ctrl1);
                          stage_shifts' = np_mask stage_shifts sel;
                          translations' = np_mask translations sel
                      in case fit_affine_transformation env translations' stage_shifts' of
                           Inl e \<Rightarrow> (Inl e, ctrl2)
                         | Inr (r, t) \<Rightarrow>
                             (let ctrl3 = (if g_write g \<and> truthy_str drc
                                           then emit DumpYaml ctrl2 else ctrl2)
                              in if plot
                                 then (case np_linalg_inv r of
                                         Inl e \<Rightarrow> (Inl e, ctrl3)
                                       | Inr r_i \<Rightarrow> (Inr (mat_div r (real binning)), ctrl3))
                                 else (Inr (mat_div r (real binning)), ctrl3)))))"

text \<open>
  The number of steps along one axis.  When the step is zero numpy's floor division
  gives an infinity and \<open>int\<close> of it raises.
\<close>

definition n_step_along :: "real \<Rightarrow> int \<Rightarrow> int \<Rightarrow> int \<Rightarrow> py_error + int" where
  "n_step_along step stage_length min_n_step max_n_step =
     (if step * of_int min_n_step > of_int stage_length then Inr min_n_step
      else if step = 0 then Inl OverflowError
      else Inr (min \<lfloor>of_int stage_length / step\<rfloor> max_n_step))"

definition lookup_pixelsize :: "'img stage_env \<Rightarrow> string \<Rightarrow> int \<Rightarrow> py_error + real" where
  "lookup_pixelsize env mode mag =
     (case map_of (config_calibration_pixelsize env) mode of
        None \<Rightarrow> Inl KeyError
      | Some table \<Rightarrow> (case map_of table mag of None \<Rightarrow> Inl KeyError | Some p \<Rightarrow> Inr p))"

definition calibrate_stage ::
    "module_globals \<Rightarrow> 'img stage_env \<Rightarrow> tem \<Rightarrow> string option \<Rightarrow> int option \<Rightarrow> real \<Rightarrow> int
       \<Rightarrow> int \<Rightarrow> int \<Rightarrow> bool \<Rightarrow> string option \<Rightarrow> (py_error + mat2) \<times> tem" where
  "calibrate_stage g env ctrl mode mag overlap stage_length min_n_step max_n_step plot drc =
     (let ctrl1 = (if truthy_str mode \<and> truthy_int mag
                   then emit (SetMagnification (the mag))
                          (emit (SetMode (the mode))
                             (ctrl\<lparr>tem_mode := the mode, tem_magnification := the mag\<rparr>))
                   else ctrl);
          mode' = tem_mode ctrl1;
          mag' = tem_magnification ctrl1;
          shape = config_camera_dimensions env
      in case lookup_pixelsize env mode' mag' of
           Inl e \<Rightarrow> (Inl e, ctrl1)
         | Inr pixelsize \<Rightarrow>
             if pixelsize = 1 \<or> pixelsize = 0
             then (Inl (ValueError (InvalidPixelsize mode' mag' pixelsize)), ctrl1)
             else
               (let x_step = of_int (fst shape) * pixelsize * (1 - overlap);
                    y_step = of_int (snd shape) * pixelsize * (1 - overlap)
                in case n_step_along x_step stage_length min_n_step max_n_step of
                     Inl e \<Rightarrow> (Inl e, ctrl1)
                   | Inr n_x_step \<Rightarrow>
                       (case n_step_along y_step stage_length min_n_step max_n_step of
                          Inl e \<Rightarrow> (Inl e, ctrl1)
                        | Inr n_y_step \<Rightarrow>
                            calibrate_stage_from_stagepos g env ctrl1
                              [(n_x_step, (x_step, 0)), (n_y_step, (0, y_step))] plot drc)))"

text \<open>The mode and magnification \<open>calibrate_stage\<close> works at: the ones asked for when
  both are given, the microscope's current ones otherwise.\<close>

definition requested_mode :: "tem \<Rightarrow> string option \<Rightarrow> int option \<Rightarrow> string" where
  "requested_mode ctrl mode mag =
     (if truthy_str mode \<and> truthy_int mag then the mode else tem_mode ctrl)"

definition requested_mag :: "tem \<Rightarrow> string option \<Rightarrow> int option \<Rightarrow> int" where
  "requested_mag ctrl mode mag =
     (if truthy_str mode \<and> truthy_int mag then the mag else tem_magnification ctrl)"

section \<open>calibrate\_stagematrix: the sweep over all magnifications\<close>

text \<open>
  The returned dictionary: for each mode the entries \<open>'stagematrix'\<close> and
  \<open>'pixelsize'\<close>, each a dictionary keyed by the magnification.
\<close>

record cfg_entry =
  cfg_stagematrix :: "int \<rightharpoonup> real list"
  cfg_pixelsize :: "int \<rightharpoonup> real"

type_synonym cfg = "string \<rightharpoonup> cfg_entry"

definition empty_entry :: cfg_entry where
  "empty_entry = \<lparr>cfg_stagematrix = Map.empty, cfg_pixelsize = Map.empty\<rparr>"

text \<open>\<open>except ValueError\<close> also catches numpy's \<open>AxisError\<close>, a subclass of it.\<close>

fun isinstance_ValueError :: "py_error \<Rightarrow> bool" where
  "isinstance_ValueError (ValueError m) = True"
| "isinstance_ValueError AxisError = True"
| "isinstance_ValueError e = False"

text \<open>\<open>x.round(4)\<close>: to four decimals, a tie going to the even neighbour.\<close>

definition np_round4 :: "real \<Rightarrow> real" where
  "np_round4 x =
     (let y = x * 10000; f = \<lfloor>y\<rfloor>; d = y - of_int f
      in of_int (if d < 1 / 2 then f else if 1 / 2 < d then f + 1
                 else if even f then f else f + 1) / 10000)"

definition round4_flatten_tolist :: "mat2 \<Rightarrow> real list" where
  "round4_flatten_tolist m =
     [np_round4 (fst (fst m)), np_round4 (snd (fst m)),
      np_round4 (fst (snd m)), np_round4 (snd (snd m))]"

text \<open>\<open>drcs[mode][mag]\<close>: \<open>None\<close> is the \<open>KeyError\<close> of either lookup.\<close>

definition lookup_drc :: "(string \<times> (int \<times> string) list) list \<Rightarrow> string \<Rightarrow> int \<Rightarrow> string option" where
  "lookup_drc drcs mode mag =
     (case map_of drcs mode of None \<Rightarrow> None | Some t \<Rightarrow> map_of t mag)"

text \<open>
  The body of \<open>for mag in mag_ranges[mode]\<close>.  \<open>calibrate_stage\<close> is called without
  \<open>stage_length\<close> and without \<open>plot\<close>, so with their defaults 40000 and \<open>False\<close>.
\<close>

fun mags_loop ::
    "module_globals \<Rightarrow> 'img stage_env \<Rightarrow> real \<Rightarrow> int \<Rightarrow> int \<Rightarrow> bool \<Rightarrow> string \<Rightarrow> int list
       \<Rightarrow> tem \<Rightarrow> cfg \<Rightarrow> (py_error + cfg) \<times> tem" where
  "mags_loop g env overlap min_n_step max_n_step save mode [] ctrl cfg = (Inr cfg, ctrl)"
| "mags_loop g env overlap min_n_step max_n_step save mode (mag # mags) ctrl cfg =
     (let ctrl1 = (if save
                   then emit (MakeWorkSubdirectory
                                (get_new_work_subdirectory env (''stagematrix_'' @ mode))) ctrl
                   else ctrl)
      in case g_drcs g of
           None \<Rightarrow> (Inl (NameError ''drcs''), ctrl1)
         | Some drcs \<Rightarrow>
             (case lookup_drc drcs mode mag of
                None \<Rightarrow> mags_loop g env overlap min_n_step max_n_step save mode mags ctrl1 cfg
              | Some drc \<Rightarrow>
                  (case calibrate_stage g env (emit (Print (PrintCalibrating mode mag)) ctrl1)
                          (Some mode) (Some mag) overlap 40000 min_n_step max_n_step False
                          (Some drc) of
                     (Inl e, ctrl2) \<Rightarrow>
                       if isinstance_ValueError e
                       then mags_loop g env overlap min_n_step max_n_step save mode mags
                              (emit (Print (PrintException e)) ctrl2) cfg
                       else (Inl e, ctrl2)
                   | (Inr stagematrix, ctrl2) \<Rightarrow>
                       (case g_stagematrix_to_pixelsize g of
                          None \<Rightarrow> (Inl (NameError ''stagematrix_to_pixelsize''), ctrl2)
                        | Some stagematrix_to_pixelsize \<Rightarrow>
                            (case cfg mode of
                               None \<Rightarrow> (Inl KeyError, ctrl2)
                             | Some entry \<Rightarrow>
                                 mags_loop g env overlap min_n_step max_n_step save mode mags ctrl2
                                   (cfg(mode \<mapsto> entry
                                      \<lparr>cfg_pixelsize := (cfg_pixelsize entry)
                                          (mag \<mapsto> stagematrix_to_pixelsize stagematrix),
                                       cfg_stagematrix := (cfg_stagematrix entry)
                                          (mag \<mapsto> round4_flatten_tolist stagematrix)\<rparr>)))))))"

text \<open>The loop \<open>for mode in modes\<close>; \<open>mag_ranges[mode]\<close> raises on a missing mode.\<close>

fun modes_loop ::
    "module_globals \<Rightarrow> 'img stage_env \<Rightarrow> (string \<times> int list) list \<Rightarrow> real \<Rightarrow> int \<Rightarrow> int \<Rightarrow> bool
       \<Rightarrow> string list \<Rightarrow> tem \<Rightarrow> cfg \<Rightarrow> (py_error + cfg) \<times> tem" where
  "modes_loop g env mag_ranges overlap min_n_step max_n_step save [] ctrl cfg = (Inr cfg, ctrl)"
| "modes_loop g env mag_ranges overlap min_n_step max_n_step save (mode # modes) ctrl cfg =
     (case map_of mag_ranges mode of
        None \<Rightarrow> (Inl KeyError, ctrl)
      | Some mags \<Rightarrow>
          (case mags_loop g env overlap min_n_step max_n_step save mode mags ctrl
                  (cfg(mode \<mapsto> empty_entry)) of
             (Inl e, ctrl1) \<Rightarrow> (Inl e, ctrl1)
           | (Inr cfg1, ctrl1) \<Rightarrow>
               modes_loop g env mag_ranges overlap min_n_step max_n_step save modes ctrl1 cfg1))"

text \<open>
  \<open>calibrate_stage_all\<close>.  \<open>mag_ranges\<close> is \<open>None\<close> or a dictionary; an empty one counts
  as not given.  The parameter \<open>stage_length\<close> is accepted and never used.  The
  dictionary starts as \<open>{mode: {} for mode in modes}\<close>; each placeholder is replaced
  at the top of its mode's iteration.
\<close>

definition calibrate_stage_all ::
    "module_globals \<Rightarrow> 'img stage_env \<Rightarrow> tem \<Rightarrow> (string \<times> int list) list option \<Rightarrow> real \<Rightarrow> int
       \<Rightarrow> int \<Rightarrow> int \<Rightarrow> bool \<Rightarrow> (py_error + cfg) \<times> tem" where
  "calibrate_stage_all g env ctrl mag_ranges overlap stage_length min_n_step max_n_step save =
     (let modes = [''lowmag'', ''mag1''];
          mag_ranges' = (case mag_ranges of None \<Rightarrow> config_microscope_ranges env
                         | Some m \<Rightarrow> if m = [] then config_microscope_ranges env else m);
          cfg0 = [''lowmag'' \<mapsto> empty_entry, ''mag1'' \<mapsto> empty_entry]
      in case modes_loop g env mag_ranges' overlap min_n_step max_n_step save modes ctrl cfg0 of
           (Inl e, ctrl1) \<Rightarrow> (Inl e, ctrl1)
         | (Inr cfg, ctrl1) \<Rightarrow> (Inr cfg, emit (Print PrintCfg) (emit (Print PrintUpdate) ctrl1)))"

section \<open>experiments/cred: the class Experiment\<close>

text \<open>An image is a two-dimensional array: the list of its rows.\<close>

type_synonym 'px image = "'px list list"

text \<open>A region reported by \<open>find_holes\<close>: \<open>weighted_centroid\<close> is \<open>(cy, cx)\<close> and
  \<open>bbox\<close> is \<open>(y1, x1, y2, x2)\<close>.\<close>

record region =
  weighted_centroid :: "real \<times> real"
  bbox :: "int \<times> int \<times> int \<times> int"

text \<open>\<open>int(x)\<close> of a float truncates towards zero.\<close>

definition py_int :: "real \<Rightarrow> int" where
  "py_int x = (if 0 \<le> x then \<lfloor>x\<rfloor> else \<lceil>x\<rceil>)"

text \<open>A slice bound on a sequence of length \<open>n\<close>: a negative bound counts from the end,
  and every bound is clipped to the sequence.\<close>

definition slice_index :: "int \<Rightarrow> nat \<Rightarrow> nat" where
  "slice_index k n = (if k < 0 then nat (max (k + int n) 0) else min (nat k) n)"

definition py_slice :: "'a list \<Rightarrow> int \<Rightarrow> int \<Rightarrow> 'a list" where
  "py_slice xs a b =
     (let lo = slice_index a (length xs); hi = slice_index b (length xs)
      in take (hi - lo) (drop lo xs))"

text \<open>\<open>img[a1:b1, a2:b2]\<close>.\<close>

definition crop :: "'px image \<Rightarrow> int \<Rightarrow> int \<Rightarrow> int \<Rightarrow> int \<Rightarrow> 'px image" where
  "crop img a1 b1 a2 b2 = map (\<lambda>row. py_slice row a2 b2) (py_slice img a1 b1)"

text \<open>The fields of \<open>self\<close> the collection reads.\<close>

record Experiment =
  self_expt :: real
  self_unblank_beam :: bool
  self_camtype :: string
  self_diff_defocus :: real
  self_image_interval :: int
  self_mode :: string

definition Experiment_init :: "real \<Rightarrow> bool \<Rightarrow> string \<Rightarrow> Experiment" where
  "Experiment_init expt unblank_beam camtype =
     \<lparr>self_expt = expt, self_unblank_beam = unblank_beam, self_camtype = camtype,
      self_diff_defocus = 0, self_image_interval = 99999, self_mode = ''initial''\<rparr>"

definition enable_image_interval :: "Experiment \<Rightarrow> int \<Rightarrow> real \<Rightarrow> Experiment" where
  "enable_image_interval self interval defocus =
     self\<lparr>self_diff_defocus := defocus, self_image_interval := interval, self_mode := ''manual''\<rparr>"

definition enable_autotrack :: "Experiment \<Rightarrow> int \<Rightarrow> real \<Rightarrow> Experiment" where
  "enable_autotrack self interval defocus =
     self\<lparr>self_diff_defocus := defocus, self_image_interval := interval, self_mode := ''auto''\<rparr>"

text \<open>The microscope as the collection drives it, with the log of the commands sent to
  it and of the lines printed, oldest first.\<close>

datatype scope_event =
    SetDiffFocus real
  | GetImage real
  | SetBeamShift real real
  | SetBeamBlank bool
  | CamBlock
  | CamUnblock
  | PrintFindAnotherCrystal
  | PrintAtLeastTwoApertures
  | PrintSavedToBuffer int
  | PrintSavedToImageBuffer int

record scope =
  difffocus :: real
  beamshift :: vec2
  beamblank :: bool
  cam_blocked :: bool
  scope_events :: "scope_event list"

definition record_event :: "scope_event \<Rightarrow> scope \<Rightarrow> scope" where
  "record_event e sc = sc\<lparr>scope_events := scope_events sc @ [e]\<rparr>"

definition set_difffocus :: "real \<Rightarrow> scope \<Rightarrow> scope" where
  "set_difffocus v sc = record_event (SetDiffFocus v) (sc\<lparr>difffocus := v\<rparr>)"

definition set_beamshift :: "real \<Rightarrow> real \<Rightarrow> scope \<Rightarrow> scope" where
  "set_beamshift x y sc = record_event (SetBeamShift x y) (sc\<lparr>beamshift := (x, y)\<rparr>)"

text \<open>
  What the collection takes from outside the source files: \<open>find_holes\<close>,
  \<open>register_translation\<close> (its first result), the matrix
  \<open>self.calib_beamshift.transform\<close> and \<open>config.microscope.camera_rotation_vs_stage_xy\<close>.
  The interactive calibrations that precede the reference image in auto mode are not
  modelled; the transform is their result.
\<close>

record 'px cred_env =
  find_holes :: "'px image \<Rightarrow> region list"
  cc_register_translation :: "'px image \<Rightarrow> 'px image \<Rightarrow> vec2"
  calib_beamshift_transform :: mat2
  camera_rotation_vs_stage_xy :: real

text \<open>The side of the crop window, from the bounding box of the one region.\<close>

definition window_size_of :: "int \<times> int \<times> int \<times> int \<Rightarrow> int" where
  "window_size_of bb =
     (case bb of (y1, x1, y2, x2) \<Rightarrow>
        let d_SA = y2 - y1;
            window_size = py_int (of_int d_SA / 1.414)
        in if window_size mod 2 = 1 then window_size + 1 else window_size)"

text \<open>The window \<open>img[a1:b1, a2:b2]\<close> around \<open>crystal_pos\<close>; \<open>window_size / 2\<close> divides
  two integers.\<close>

definition crop_around :: "'px image \<Rightarrow> vec2 \<Rightarrow> int \<Rightarrow> 'px image" where
  "crop_around img crystal_pos window_size =
     (let a1 = py_int (fst crystal_pos - of_int (window_size div 2));
          b1 = py_int (fst crystal_pos + of_int (window_size div 2));
          a2 = py_int (snd crystal_pos - of_int (window_size div 2));
          b2 = py_int (snd crystal_pos + of_int (window_size div 2))
      in crop img a1 b1 a2 b2)"

text \<open>
  The local variables that only the auto-mode set-up binds.  In the other modes they
  stay unbound, and reading one raises \<open>UnboundLocalError\<close>.
\<close>

record 'px auto_locals =
  diff_focus_proper :: real
  diff_focus_defocused :: real
  bs_x0 :: real
  bs_y0 :: real
  crystal_pos :: vec2
  window_size :: int
  img0_cropped :: "'px image"
  cc :: vec2

text \<open>
  The auto-mode set-up from the reference image on: \<open>img0\<close> is the image the camera
  returns.  The result \<open>None\<close> is the early \<open>return None\<close>.
\<close>

definition auto_setup ::
    "'px cred_env \<Rightarrow> Experiment \<Rightarrow> 'px image \<Rightarrow> scope \<Rightarrow> 'px auto_locals option \<times> scope" where
  "auto_setup env self img0 sc =
     (let proper = difffocus sc;
          defocused = self_diff_defocus self;
          sc1 = set_difffocus proper
                  (record_event (GetImage (self_expt self / 5)) (set_difffocus defocused sc));
          bs = beamshift sc1
      in case find_holes env img0 of
           [p] \<Rightarrow>
             (let pos = weighted_centroid p;
                  w = window_size_of (bbox p)
              in (Some \<lparr>diff_focus_proper = proper, diff_focus_defocused = defocused,
                        bs_x0 = fst bs, bs_y0 = snd bs, crystal_pos = pos, window_size = w,
                        img0_cropped = crop_around img0 pos w, cc = (0, 0)\<rparr>, sc1))
         | _ \<Rightarrow> (None, record_event PrintFindAnotherCrystal sc1))"

section \<open>experiments/cred: the recording loop\<close>

text \<open>
  What one pass of the loop receives from outside: the image and header the camera
  returns and, for a tracking pass, the two things the wall clock decides, namely the
  reading \<open>t_start\<close> and how many times the body of the catch-up loop
  \<open>while time.time() > next_interval\<close> runs.
\<close>

record ('px, 'h) frame_input =
  fi_image :: "'px image"
  fi_header :: 'h
  fi_t_start :: real
  fi_skipped :: nat

record ('px, 'h) locals =
  l_i :: int
  l_buffer :: "(int \<times> 'px image \<times> 'h) list"
  l_image_buffer :: "(int \<times> 'px image \<times> 'h) list"
  l_auto :: "'px auto_locals option"

datatype ('px, 'h) body_result =
    Continue "('px, 'h) locals" scope
  | Break "('px, 'h) locals" scope
  | Raise py_error "('px, 'h) locals" scope

text \<open>
  The tracking correction of auto mode, after the tracking image has been stored:
  exactly one region goes on, anything else prints and leaves the loop.
\<close>

definition track ::
    "'px cred_env \<Rightarrow> ('px, 'h) frame_input \<Rightarrow> 'px auto_locals \<Rightarrow> ('px, 'h) locals \<Rightarrow> scope
       \<Rightarrow> ('px, 'h) body_result" where
  "track env fr a l sc =
     (case find_holes env (fi_image fr) of
        [p] \<Rightarrow>
          (let pos = weighted_centroid p;
               img_cropped = crop_around (fi_image fr) pos (window_size a);
               shift = cc_register_translation env (img0_cropped a) img_cropped;
               delta_beamshiftcoord = np_matmul (calib_beamshift_transform env) shift;
               x = bs_x0 a + fst delta_beamshiftcoord;
               y = bs_y0 a + snd delta_beamshiftcoord
           in Continue
                (l\<lparr>l_i := l_i l + int (fi_skipped fr) + 1,
                   l_auto := Some (a\<lparr>crystal_pos := pos, cc := shift, bs_x0 := x, bs_y0 := y\<rparr>)\<rparr>)
                (set_beamshift x y sc))
      | _ \<Rightarrow> Break l (record_event PrintAtLeastTwoApertures sc))"

text \<open>
  One pass of \<open>while not self.stopEvent.is_set()\<close>, started at time \<open>t0\<close>.  The
  first branch is auto mode, the second every other mode.
\<close>

definition loop_body ::
    "'px cred_env \<Rightarrow> Experiment \<Rightarrow> real \<Rightarrow> ('px, 'h) frame_input \<Rightarrow> ('px, 'h) locals \<Rightarrow> scope
       \<Rightarrow> ('px, 'h) body_result" where
  "loop_body env self t0 fr l sc =
     (if self_mode self = ''auto'' then
        (if self_image_interval self = 0 then Raise ZeroDivisionError l sc
         else if l_i l mod self_image_interval self = 0 then
           (if l_i l - 1 = 0 then Raise ZeroDivisionError l sc
            else case l_auto l of
                   None \<Rightarrow> Raise (UnboundLocalError ''diff_focus_defocused'') l sc
                 | Some a \<Rightarrow>
                     (let acquisition_time = (fi_t_start fr - t0) / of_int (l_i l - 1);
                          sc1 = set_difffocus (diff_focus_proper a)
                                  (record_event (GetImage (self_expt self / 10))
                                     (set_difffocus (diff_focus_defocused a) sc));
                          l1 = l\<lparr>l_image_buffer :=
                                  l_image_buffer l @ [(l_i l, fi_image fr, fi_header fr)]\<rparr>
                      in track env fr a l1 (record_event (PrintSavedToImageBuffer (l_i l)) sc1)))
         else
           Continue
             (l\<lparr>l_buffer := l_buffer l @ [(l_i l, fi_image fr, fi_header fr)],
                l_i := l_i l + 1\<rparr>)
             (record_event (PrintSavedToBuffer (l_i l))
                (record_event (GetImage (self_expt self)) sc)))
      else
        (if self_image_interval self = 0 then Raise ZeroDivisionError l sc
         else if l_i l mod self_image_interval self = 0 then
           (if l_i l - 1 = 0 then Raise ZeroDivisionError l sc
            else case l_auto l of
                   None \<Rightarrow> Raise (UnboundLocalError ''diff_focus_defocused'') l sc
                 | Some a \<Rightarrow>
                     (let acquisition_time = (fi_t_start fr - t0) / of_int (l_i l - 1);
                          sc1 = set_difffocus (diff_focus_proper a)
                                  (record_event (GetImage (self_expt self / 5))
                                     (set_difffocus (diff_focus_defocused a) sc))
                      in Continue
                           (l\<lparr>l_image_buffer :=
                                l_image_buffer l @ [(l_i l, fi_image fr, fi_header fr)],
                              l_i := l_i l + int (fi_skipped fr) + 1\<rparr>)
                           sc1))
         else
           Continue
             (l\<lparr>l_buffer := l_buffer l @ [(l_i l, fi_image fr, fi_header fr)],
                l_i := l_i l + 1\<rparr>)
             (record_event (GetImage (self_expt self)) sc)))"

text \<open>
  The loop.  The stop event is polled once per pass; the list holds the passes for
  which it was found unset, so the empty list is the poll that finds it set.  A break
  or an exception leaves the remaining passes unused.
\<close>

datatype ('px, 'h) loop_result =
    Stopped "('px, 'h) locals" scope
  | Broke "('px, 'h) locals" scope "('px, 'h) frame_input list"
  | Failed py_error "('px, 'h) locals" scope

fun recording_loop ::
    "'px cred_env \<Rightarrow> Experiment \<Rightarrow> real \<Rightarrow> ('px, 'h) frame_input list \<Rightarrow> ('px, 'h) locals
       \<Rightarrow> scope \<Rightarrow> ('px, 'h) loop_result" where
  "recording_loop env self t0 [] l sc = Stopped l sc"
| "recording_loop env self t0 (fr # frs) l sc =
     (case loop_body env self t0 fr l sc of
        Continue l' sc' \<Rightarrow> recording_loop env self t0 frs l' sc'
      | Break l' sc' \<Rightarrow> Broke l' sc' frs
      | Raise e l' sc' \<Rightarrow> Failed e l' sc')"

section \<open>experiments/cred: start\_collection\<close>

text \<open>
  Waiting for the rotation to start: the stage angle is read until it is
  \<open>ACTIVATION_THRESHOLD\<close> away from \<open>a0\<close>.  The list holds the readings still to come;
  \<open>None\<close> is a wait that they do not end.
\<close>

definition ACTIVATION_THRESHOLD :: real where
  "ACTIVATION_THRESHOLD = 0.2"

fun wait_for_rotation :: "real \<Rightarrow> real \<Rightarrow> real list \<Rightarrow> real option" where
  "wait_for_rotation a0 a [] =
     (if \<bar>a - a0\<bar> < ACTIVATION_THRESHOLD then None else Some a)"
| "wait_for_rotation a0 a (r # rs) =
     (if \<bar>a - a0\<bar> < ACTIVATION_THRESHOLD
      then (if \<bar>r - a0\<bar> > ACTIVATION_THRESHOLD then Some r else wait_for_rotation a0 r rs)
      else Some a)"

text \<open>What \<open>ImgConversion\<close> is constructed with, and the rest of what is written out.\<close>

record ('px, 'h) img_conversion =
  ic_buffer :: "(int \<times> 'px image \<times> 'h) list"
  ic_camera_length :: int
  ic_osangle :: real
  ic_startangle :: real
  ic_endangle :: real
  ic_rotation_angle :: real
  ic_acquisition_time :: real
  ic_resolution_range :: "real \<times> real"

record ('px, 'h) session =
  s_img_conv :: "('px, 'h) img_conversion"
  s_log_number_of_frames :: nat
  s_tiff_image :: "(int \<times> 'px image \<times> 'h) list"

text \<open>
  Everything after the loop.  \<open>t1\<close> is the clock reading, \<open>angle\<close> the stage angle and
  \<open>magnification\<close> the value read from the microscope at that moment; \<open>rnd\<close> is the
  draw of \<open>np.random.random()\<close> a simulated camera uses.
\<close>

definition finish_collection ::
    "'px cred_env \<Rightarrow> Experiment \<Rightarrow> real \<Rightarrow> real \<Rightarrow> real \<Rightarrow> real \<Rightarrow> real \<Rightarrow> real
       \<Rightarrow> ('px, 'h) locals \<Rightarrow> scope \<Rightarrow> ('px, 'h) session \<times> scope" where
  "finish_collection env self startangle t0 t1 angle magnification rnd l sc =
     (let sc1 = record_event CamUnblock (sc\<lparr>cam_blocked := False\<rparr>);
          endangle = (if self_camtype self = ''simulate'' then startangle + rnd * 50 else angle);
          camera_length = (if self_camtype self = ''simulate'' then 300 else py_int magnification);
          sc2 = (if self_unblank_beam self
                 then record_event (SetBeamBlank True) (sc1\<lparr>beamblank := True\<rparr>) else sc1);
          nframes = l_i l + 1;
          osangle = \<bar>endangle - startangle\<bar> / of_int nframes;
          acquisition_time = (t1 - t0) / of_int nframes
      in (\<lparr>s_img_conv =
             \<lparr>ic_buffer = l_buffer l, ic_camera_length = camera_length, ic_osangle = osangle,
              ic_startangle = startangle, ic_endangle = endangle,
              ic_rotation_angle = camera_rotation_vs_stage_xy env,
              ic_acquisition_time = acquisition_time, ic_resolution_range = (20, 0.8)\<rparr>,
           s_log_number_of_frames = length (l_buffer l),
           s_tiff_image = l_image_buffer l\<rparr>, sc2))"

text \<open>What the run receives from outside, in the order it is consumed.\<close>

record ('px, 'h) run_input =
  in_a0 :: real
  in_img0 :: "'px image"
  in_angles :: "real list"
  in_t0 :: real
  in_frames :: "('px, 'h) frame_input list"
  in_t1 :: real
  in_end_angle :: real
  in_magnification :: real
  in_random :: real

datatype ('px, 'h) outcome =
    ReturnedNone scope
  | StillArmed scope
  | Raised py_error "('px, 'h) locals" scope
  | Finished "('px, 'h) session" scope

text \<open>The angle at which recording starts, the local variables the loop starts with and
  the microscope as the loop finds it.\<close>

definition rotation_start :: "Experiment \<Rightarrow> ('px, 'h) run_input \<Rightarrow> real option" where
  "rotation_start self inp =
     (if self_camtype self = ''simulate'' then Some (in_a0 inp)
      else wait_for_rotation (in_a0 inp) (in_a0 inp) (in_angles inp))"

definition recording_start_locals :: "'px auto_locals option \<Rightarrow> ('px, 'h) locals" where
  "recording_start_locals auto = \<lparr>l_i = 1, l_buffer = [], l_image_buffer = [], l_auto = auto\<rparr>"

definition recording_start_scope :: "Experiment \<Rightarrow> scope \<Rightarrow> scope" where
  "recording_start_scope self sc =
     record_event CamBlock
       ((if self_unblank_beam self
         then record_event (SetBeamBlank False) (sc\<lparr>beamblank := False\<rparr>) else sc)
        \<lparr>cam_blocked := True\<rparr>)"

text \<open>From the end of the set-up to the end of the method.\<close>

definition record_and_finish ::
    "'px cred_env \<Rightarrow> Experiment \<Rightarrow> ('px, 'h) run_input \<Rightarrow> 'px auto_locals option \<Rightarrow> scope
       \<Rightarrow> ('px, 'h) outcome" where
  "record_and_finish env self inp auto sc =
     (case (if self_camtype self = ''simulate'' then Some (in_a0 inp)
            else wait_for_rotation (in_a0 inp) (in_a0 inp) (in_angles inp)) of
        None \<Rightarrow> StillArmed sc
      | Some startangle \<Rightarrow>
          (let sc1 = (if self_unblank_beam self
                      then record_event (SetBeamBlank False) (sc\<lparr>beamblank := False\<rparr>) else sc);
               sc2 = record_event CamBlock (sc1\<lparr>cam_blocked := True\<rparr>);
               l0 = \<lparr>l_i = 1, l_buffer = [], l_image_buffer = [], l_auto = auto\<rparr>
           in case recording_loop env self (in_t0 inp) (in_frames inp) l0 sc2 of
                Failed e l sc3 \<Rightarrow> Raised e l sc3
              | Stopped l sc3 \<Rightarrow>
                  (case finish_collection env self startangle (in_t0 inp) (in_t1 inp)
                          (in_end_angle inp) (in_magnification inp) (in_random inp) l sc3 of
                     (s, sc4) \<Rightarrow> Finished s sc4)
              | Broke l sc3 unused \<Rightarrow>
                  (case finish_collection env self startangle (in_t0 inp) (in_t1 inp)
                          (in_end_angle inp) (in_magnification inp) (in_random inp) l sc3 of
                     (s, sc4) \<Rightarrow> Finished s sc4)))"

definition start_collection ::
    "'px cred_env \<Rightarrow> Experiment \<Rightarrow> ('px, 'h) run_input \<Rightarrow> scope \<Rightarrow> ('px, 'h) outcome" where
  "start_collection env self inp sc =
     (if self_mode self = ''auto''
      then (case auto_setup env self (in_img0 inp) sc of
              (None, sc1) \<Rightarrow> ReturnedNone sc1
            | (Some a, sc1) \<Rightarrow> record_and_finish env self inp (Some a) sc1)
      else record_and_finish env self inp None sc)"

section \<open>Library formulas and concrete inputs used in the examples\<close>

text \<open>
  The formulas the two library routines are documented with, evaluated without
  rounding: the Euclidean norm of every row, and \<open>(a - a.mean()) / a.std()\<close> with the
  population standard deviation and numpy's division (a zero divisor gives \<open>nan\<close> or
  an infinity).  They give what the library gives wherever no intermediate value
  needs rounding, as for the inputs of the examples below; no statement about all
  inputs rests on them.
\<close>

definition np_divide :: "real \<Rightarrow> real \<Rightarrow> npfloat" where
  "np_divide x y =
     (if y \<noteq> 0 then Fin (x / y)
      else if x = 0 then NaN
      else if 0 < x then PosInf else NegInf)"

definition exact_norm :: "vec2 \<Rightarrow> real" where
  "exact_norm v = sqrt ((fst v)\<^sup>2 + (snd v)\<^sup>2)"

definition exact_mean :: "real list \<Rightarrow> real" where
  "exact_mean a = sum_list a / real (length a)"

definition exact_std :: "real list \<Rightarrow> real" where
  "exact_std a = sqrt (exact_mean (map (\<lambda>x. (x - exact_mean a)\<^sup>2) a))"

definition exact_zscore :: "real list \<Rightarrow> npfloat list" where
  "exact_zscore a = map (\<lambda>x. np_divide (x - exact_mean a) (exact_std a)) a"

text \<open>The empty Python list becomes an array of shape \<open>(0,)\<close>, which has no axis 1.\<close>

definition exact_numlib :: numlib where
  "exact_numlib =
     \<lparr>linalg_norm_axis1 = (\<lambda>data. if data = [] then Inl AxisError
                                  else Inr (map exact_norm data)),
      stats_zscore = exact_zscore\<rparr>"

text \<open>A microscope set-up with one uncalibrated magnification per mode, the sentinel
  1.0 and the value 0.0, next to calibrated ones.\<close>

definition demo_stage_env :: "unit stage_env" where
  "demo_stage_env =
     \<lparr>env_numlib = exact_numlib,
      cam_getImage = (\<lambda>ctrl. ()),
      read_tiff = (\<lambda>name. Inr ()),
      rotate_image = (\<lambda>img mode mag. img),
      register_translation = (\<lambda>img0 img1. (3, 4)),
      fit_affine_transformation = (\<lambda>src dst. Inr (((1, 0), (0, 1)), (0, 0))),
      get_new_work_subdirectory = (\<lambda>name. name),
      config_camera_dimensions = (2048, 2048),
      config_calibration_pixelsize =
        [(''lowmag'', [(100, 0), (200, 10)]), (''mag1'', [(1000, 1), (2000, 3 / 10)])],
      config_microscope_ranges = [(''lowmag'', [100, 200]), (''mag1'', [1000, 2000])]\<rparr>"

definition demo_tem :: tem where
  "demo_tem =
     \<lparr>tem_mode = ''mag1'', tem_magnification = 2000, tem_stage_xy = (7, 9),
      tem_binning = 1, tem_events = []\<rparr>"

text \<open>A detector that finds one region in the image \<open>[[0]]\<close>, two in \<open>[[1]]\<close> and none
  in any other image.\<close>

definition demo_region :: region where
  "demo_region = \<lparr>weighted_centroid = (50, 50), bbox = (0, 0, 100, 100)\<rparr>"

definition demo_region2 :: region where
  "demo_region2 = \<lparr>weighted_centroid = (10, 10), bbox = (5, 5, 15, 15)\<rparr>"

definition demo_cred :: "nat cred_env" where
  "demo_cred =
     \<lparr>find_holes = (\<lambda>img. if img = [[0]] then [demo_region]
                         else if img = [[1]] then [demo_region, demo_region2] else []),
      cc_register_translation = (\<lambda>img0 img1. (1, 2)),
      calib_beamshift_transform = ((1, 0), (0, 1)),
      camera_rotation_vs_stage_xy = 0\<rparr>"

text \<open>A detector that finds the same small region in every image.\<close>

definition demo_small_region :: region where
  "demo_small_region = \<lparr>weighted_centroid = (5, 5), bbox = (2, 2, 8, 8)\<rparr>"

definition demo_cred_small :: "nat cred_env" where
  "demo_cred_small = demo_cred\<lparr>find_holes := (\<lambda>img. [demo_small_region])\<rparr>"

definition demo_scope :: scope where
  "demo_scope =
     \<lparr>difffocus = 3, beamshift = (0, 0), beamblank = True, cam_blocked = False,
      scope_events = []\<rparr>"

definition demo_frame :: "nat \<Rightarrow> (nat, unit) frame_input" where
  "demo_frame k = \<lparr>fi_image = [[k]], fi_header = (), fi_t_start = 1, fi_skipped = 0\<rparr>"

definition demo_input :: "nat image \<Rightarrow> (nat, unit) frame_input list \<Rightarrow> (nat, unit) run_input" where
  "demo_input img0 frs =
     \<lparr>in_a0 = 10, in_img0 = img0, in_angles = [], in_t0 = 0, in_frames = frs, in_t1 = 3,
      in_end_angle = 0, in_magnification = 0, in_random = 3 / 5\<rparr>"

definition demo_auto :: "nat auto_locals" where
  "demo_auto =
     \<lparr>diff_focus_proper = 3, diff_focus_defocused = 7, bs_x0 = 0, bs_y0 = 0,
      crystal_pos = (50, 50), window_size = 70, img0_cropped = [[0]], cc = (0, 0)\<rparr>"

definition demo_locals :: "int \<Rightarrow> (nat, unit) locals" where
  "demo_locals i = \<lparr>l_i = i, l_buffer = [], l_image_buffer = [], l_auto = Some demo_auto\<rparr>"

section \<open>Properties of the coordinate conversions\<close>

lemma np_linalg_inv_Inr:
  assumes "np_linalg_inv r = Inr ri"
  shows "det2 r \<noteq> 0"
    and "ri = ((snd (snd r) / det2 r, - snd (fst r) / det2 r),
               (- fst (snd r) / det2 r, fst (fst r) / det2 r))"
  using assms by (auto simp: np_linalg_inv_def split: if_splits)

lemma np_linalg_inv_ex: "det2 r \<noteq> 0 \<Longrightarrow> \<exists>ri. np_linalg_inv r = Inr ri"
  by (simp add: np_linalg_inv_def)

lemma np_dot_inv_right:
  assumes "np_linalg_inv r = Inr ri"
  shows "np_dot (np_dot v ri) r = v"
proof -
  obtain a b c d where r: "r = ((a, b), (c, d))" by (metis surj_pair)
  obtain x y where v: "v = (x, y)" by (metis surj_pair)
  define D where "D = det2 r"
  have D0: "D \<noteq> 0" and ri: "ri = ((d / D, - b / D), (- c / D, a / D))"
    using np_linalg_inv_Inr [OF assms] by (simp_all add: D_def r)
  have D: "a * d - b * c = D" by (simp add: D_def det2_def r)
  have "(x * (d / D) + y * (- c / D)) * a + (x * (- b / D) + y * (a / D)) * c
          = x * (a * d - b * c) / D"
    using D0 by (simp add: field_simps)
  moreover have "(x * (d / D) + y * (- c / D)) * b + (x * (- b / D) + y * (a / D)) * d
          = y * (a * d - b * c) / D"
    using D0 by (simp add: field_simps)
  ultimately show ?thesis
    using D0 by (simp add: np_dot_def ri r v D)
qed

lemma np_dot_inv_left:
  assumes "np_linalg_inv r = Inr ri"
  shows "np_dot (np_dot v r) ri = v"
proof -
  obtain a b c d where r: "r = ((a, b), (c, d))" by (metis surj_pair)
  obtain x y where v: "v = (x, y)" by (metis surj_pair)
  define D where "D = det2 r"
  have D0: "D \<noteq> 0" and ri: "ri = ((d / D, - b / D), (- c / D, a / D))"
    using np_linalg_inv_Inr [OF assms] by (simp_all add: D_def r)
  have D: "a * d - b * c = D" by (simp add: D_def det2_def r)
  have "(x * a + y * c) * (d / D) + (x * b + y * d) * (- c / D)
          = x * (a * d - b * c) / D"
    using D0 by (simp add: field_simps)
  moreover have "(x * a + y * c) * (- b / D) + (x * b + y * d) * (a / D)
          = y * (a * d - b * c) / D"
    using D0 by (simp add: field_simps)
  ultimately show ?thesis
    using D0 by (simp add: np_dot_def ri r v D)
qed

lemma vec_cancel:
  "vsub (vsub (vadd (vadd u t) q) t) q = u"
  "vadd (vadd (vsub (vsub u t) q) t) q = u"
  "vadd_scalar (vsub_scalar u k) k = u"
  "vsub_scalar (vadd_scalar u k) k = u"
  "vsub (vadd w u) w = u"
  "vadd w (vsub u w) = u"
  by (simp_all add: vsub_def vadd_def vsub_scalar_def vadd_scalar_def)

lemmas conversion_defs =
  pixelcoord_to_stagepos_def stagepos_to_pixelcoord_def
  pixelcoord_to_stagepos_impl_def stagepos_to_pixelcoord_impl_def
  pixelcoord_to_reference_setting_impl_def reference_setting_to_pixelcoord_impl_def
  and_then_def

text \<open>
  Claim C1.  For a calibration whose matrix \<open>r\<close> is invertible, any translation,
  reference position, image position \<open>ip\<close> and payload \<open>p\<close>:
  \<open>pixelcoord_to_stagepos\<close> followed by \<open>stagepos_to_pixelcoord\<close> returns \<open>p\<close>, and so
  does \<open>stagepos_to_pixelcoord\<close> followed by \<open>pixelcoord_to_stagepos\<close>; neither
  raises.  The arithmetic is exact, so the round trip is an equality.
\<close>

theorem C1_conversions_are_mutual_inverses:
  assumes "det2 (rotation c) \<noteq> 0"
  shows "and_then (pixelcoord_to_stagepos c p ip) (\<lambda>s. stagepos_to_pixelcoord c s ip) = Inr p
       \<and> and_then (stagepos_to_pixelcoord c p ip) (\<lambda>px. pixelcoord_to_stagepos c px ip) = Inr p"
proof -
  obtain ri where ri: "np_linalg_inv (rotation c) = Inr ri"
    using np_linalg_inv_ex [OF assms] by blast
  have 1: "and_then (pixelcoord_to_stagepos c p ip) (\<lambda>s. stagepos_to_pixelcoord c s ip) = Inr p"
    by (simp add: conversion_defs ri vec_cancel np_dot_inv_left [OF ri])
  have 2: "and_then (stagepos_to_pixelcoord c p ip) (\<lambda>px. pixelcoord_to_stagepos c px ip) = Inr p"
    by (simp add: conversion_defs ri vec_cancel np_dot_inv_right [OF ri])
  from 1 2 show ?thesis by simp
qed

text \<open>An instance: the matrix has determinant 1, and the pixel (100, 200) of an image taken
  at (50, 60) lies at the stage position (-2622, -1688).\<close>

theorem C1_conversions_witness:
  "det2 (rotation (CalibStage_init ((2, 1), (1, 1)) (3, 4) (10, 20))) \<noteq> 0
   \<and> pixelcoord_to_stagepos (CalibStage_init ((2, 1), (1, 1)) (3, 4) (10, 20)) (100, 200) (50, 60)
       = Inr (- 2622, - 1688)
   \<and> and_then
       (pixelcoord_to_stagepos (CalibStage_init ((2, 1), (1, 1)) (3, 4) (10, 20)) (100, 200) (50, 60))
       (\<lambda>s. stagepos_to_pixelcoord (CalibStage_init ((2, 1), (1, 1)) (3, 4) (10, 20)) s (50, 60))
       = Inr (100, 200)
   \<and> and_then
       (stagepos_to_pixelcoord (CalibStage_init ((2, 1), (1, 1)) (3, 4) (10, 20)) (100, 200) (50, 60))
       (\<lambda>px. pixelcoord_to_stagepos (CalibStage_init ((2, 1), (1, 1)) (3, 4) (10, 20)) px (50, 60))
       = Inr (100, 200)"
proof -
  have h: "det2 (rotation (CalibStage_init ((2, 1), (1, 1)) (3, 4) (10, 20))) \<noteq> 0"
    by (simp add: CalibStage_init_def det2_def)
  have e: "pixelcoord_to_stagepos (CalibStage_init ((2, 1), (1, 1)) (3, 4) (10, 20))
             (100, 200) (50, 60) = Inr (- 2622, - 1688)"
    by (simp add: conversion_defs CalibStage_init_def np_linalg_inv_def det2_def
        vsub_def vadd_def vsub_scalar_def np_dot_def)
  show ?thesis
    using h e C1_conversions_are_mutual_inverses [OF h, of "(100, 200)" "(50, 60)"]
    by simp
qed

text \<open>On a singular matrix both conversions raise, as \<open>np.linalg.inv\<close> does.\<close>

lemma conversions_raise_on_singular:
  "det2 (rotation c) = 0 \<Longrightarrow>
     pixelcoord_to_stagepos c p ip = Inl LinAlgError
     \<and> stagepos_to_pixelcoord c p ip = Inl LinAlgError"
  by (simp add: conversion_defs np_linalg_inv_def)

section \<open>Properties of the outlier filter\<close>

lemma sqrt_25: "sqrt 25 = 5"
  by (rule real_sqrt_unique) simp_all

lemma count_rejected: "length sel - length (filter (\<lambda>b. b) sel) = length (filter Not sel)"
  using sum_length_filter_compl [of "\<lambda>b. b" sel]
  by (simp add: comp_def)

text \<open>
  What the repository's own lines decide, whatever the library computes: sample \<open>i\<close>
  is kept exactly when the library's z-score for it is finite and its absolute value
  is strictly below the threshold.  The number of rejected samples is printed when
  there is one.
\<close>

lemma get_outlier_filter_keep_test:
  assumes "linalg_norm_axis1 lib data = Inr norms"
  shows "get_outlier_filter lib data threshold
           = Inr (map (\<lambda>z. np_less (np_abs z) threshold) (stats_zscore lib norms),
                  if list_all (\<lambda>z. np_less (np_abs z) threshold) (stats_zscore lib norms)
                  then None
                  else Some (length (filter (\<lambda>z. \<not> np_less (np_abs z) threshold)
                                        (stats_zscore lib norms))))"
proof -
  define sel where "sel = map (\<lambda>z. np_less (np_abs z) threshold) (stats_zscore lib norms)"
  have "get_outlier_filter lib data threshold
          = Inr (sel, if \<not> list_all (\<lambda>b. b) sel
                      then Some (length sel - length (filter (\<lambda>b. b) sel)) else None)"
    using assms by (simp add: get_outlier_filter_def and_then_def Let_def sel_def)
  then have "get_outlier_filter lib data threshold
          = Inr (sel, if list_all (\<lambda>b. b) sel then None else Some (length (filter Not sel)))"
    by (simp add: count_rejected)
  then show ?thesis
    by (simp add: sel_def list_all_iff filter_map comp_def)
qed

lemma keep_test_cases:
  "np_less (np_abs z) threshold \<longleftrightarrow> (\<exists>x. z = Fin x \<and> \<bar>x\<bar> < threshold)"
  by (cases z) simp_all

text \<open>A z-score that equals the threshold is rejected, and so is one that is
  not-a-number.\<close>

lemma zscore_at_threshold_rejected:
  assumes "linalg_norm_axis1 lib data = Inr norms"
    and "i < length (stats_zscore lib norms)"
    and "stats_zscore lib norms ! i = Fin threshold \<or> stats_zscore lib norms ! i = NaN"
  shows "\<exists>sel printed. get_outlier_filter lib data threshold = Inr (sel, printed)
           \<and> sel ! i = False \<and> printed \<noteq> None"
proof -
  have r: "\<not> np_less (np_abs (stats_zscore lib norms ! i)) threshold"
    using assms(3) by auto
  have "stats_zscore lib norms ! i \<in> set (stats_zscore lib norms)"
    using assms(2) by simp
  with r have "\<not> list_all (\<lambda>z. np_less (np_abs z) threshold) (stats_zscore lib norms)"
    by (auto simp: list_all_iff)
  then show ?thesis
    using assms(2) r by (simp add: get_outlier_filter_keep_test [OF assms(1)])
qed

lemma nan_zscores_reject_all:
  assumes "linalg_norm_axis1 lib data = Inr norms"
    and "stats_zscore lib norms = replicate (length data) NaN"
    and "data \<noteq> []"
  shows "get_outlier_filter lib data threshold
           = Inr (replicate (length data) False, Some (length data))
         \<and> np_mask data (replicate (length data) False) = []"
proof -
  have "np_mask data (replicate (length data) False) = []"
    unfolding np_mask_def by (auto simp: filter_empty_conv dest: set_zip_rightD)
  then show ?thesis
    using assms(3)
    by (simp add: get_outlier_filter_keep_test [OF assms(1)] assms(2) list_all_iff)
qed

lemma exact_norm_examples:
  "exact_norm (0, 0) = 0" "exact_norm (3, 4) = 5" "exact_norm (4, 3) = 5"
  "exact_norm (- 5, 0) = 5"
  by (simp_all add: exact_norm_def sqrt_25)

lemma exact_mean_example: "exact_mean [0, 0, 0, 0, 5] = 1"
  by (simp add: exact_mean_def)

lemma exact_std_example: "exact_std [0, 0, 0, 0, 5] = 2"
  by (simp add: exact_std_def exact_mean_def)

text \<open>
  Claim C4 asks that exactly the samples whose absolute z-score exceeds the threshold
  are rejected and all others kept, and the docstring calls the threshold the cut-off
  for which z-scores are still accepted.  The test is \<open>abs(zscore) < threshold\<close>, so a
  sample whose z-score equals the threshold is rejected.  Of the five samples below
  the last has norm 5 and the others norm 0: the mean is 1, the standard deviation 2
  and the last z-score 2, every step without rounding.  It does not exceed the
  threshold 2, and it is rejected and counted as an outlier.
\<close>

theorem C4_sample_at_the_threshold_is_rejected:
  "linalg_norm_axis1 exact_numlib [(0, 0), (0, 0), (0, 0), (0, 0), (3, 4)] = Inr [0, 0, 0, 0, 5]
   \<and> stats_zscore exact_numlib [0, 0, 0, 0, 5]
       = [Fin (- 1 / 2), Fin (- 1 / 2), Fin (- 1 / 2), Fin (- 1 / 2), Fin 2]
   \<and> \<not> (2 :: real) < \<bar>2\<bar>
   \<and> get_outlier_filter exact_numlib [(0, 0), (0, 0), (0, 0), (0, 0), (3, 4)] 2
       = Inr ([True, True, True, True, False], Some 1)"
  by (simp add: get_outlier_filter_def exact_numlib_def and_then_def exact_norm_examples
      exact_zscore_def exact_mean_example exact_std_example np_divide_def)

text \<open>
  Three samples of norm 5: the mean is 5 and the standard deviation 0, again without
  rounding, every z-score is not-a-number and every sample is rejected.  Whether equal
  norms in general give a standard deviation of exactly zero is decided by the
  rounding inside the library and is not stated here.
\<close>

lemma equal_norms_example:
  "get_outlier_filter exact_numlib [(3, 4), (4, 3), (- 5, 0)] 2
     = Inr ([False, False, False], Some 3)
   \<and> np_mask ([(3, 4), (4, 3), (- 5, 0)] :: vec2 list) [False, False, False] = []"
proof -
  have n: "linalg_norm_axis1 exact_numlib [(3, 4), (4, 3), (- 5, 0)] = Inr [5, 5, 5]"
    by (simp add: exact_numlib_def exact_norm_examples)
  have z: "stats_zscore exact_numlib [5, 5, 5]
             = replicate (length ([(3, 4), (4, 3), (- 5, 0)] :: vec2 list)) NaN"
    by (simp add: exact_numlib_def exact_zscore_def exact_mean_def exact_std_def np_divide_def
        numeral_3_eq_3)
  from nan_zscores_reject_all [OF n z, of 2] show ?thesis
    by (simp add: numeral_3_eq_3)
qed

section \<open>Properties of the stage calibration\<close>

text \<open>
  Claim C5.  When the configured pixel size for the mode and magnification the
  calibration works at is 0.0 or the sentinel 1.0, \<open>calibrate_stage\<close> raises
  \<open>ValueError\<close>.  Up to that point it has at most selected the mode and the
  magnification on the microscope: the stage position is unchanged and the log holds
  no stage movement, no camera image and no image file read.
\<close>

theorem C5_invalid_pixelsize_fails_fast:
  assumes "lookup_pixelsize env (requested_mode ctrl mode mag) (requested_mag ctrl mode mag)
             = Inr pixelsize"
    and "pixelsize = 0 \<or> pixelsize = 1"
  shows "\<exists>ctrl'. calibrate_stage g env ctrl mode mag overlap stage_length min_n_step max_n_step
                   plot drc
           = (Inl (ValueError (InvalidPixelsize (requested_mode ctrl mode mag)
                                 (requested_mag ctrl mode mag) pixelsize)), ctrl')
         \<and> tem_stage_xy ctrl' = tem_stage_xy ctrl
         \<and> tem_events ctrl' = tem_events ctrl @
              (if truthy_str mode \<and> truthy_int mag
               then [SetMode (the mode), SetMagnification (the mag)] else [])"
  using assms
  by (auto simp: calibrate_stage_def requested_mode_def requested_mag_def emit_def Let_def)

text \<open>An instance: low magnification 100 is configured with pixel size 0.0.\<close>

theorem C5_witness:
  "lookup_pixelsize demo_stage_env (requested_mode demo_tem (Some ''lowmag'') (Some 100))
       (requested_mag demo_tem (Some ''lowmag'') (Some 100)) = Inr 0
   \<and> ((0 :: real) = 0 \<or> (0 :: real) = 1)
   \<and> (\<exists>ctrl'. calibrate_stage module_as_written demo_stage_env demo_tem (Some ''lowmag'')
                  (Some 100) (1 / 2) 40000 3 15 False (Some ''data'')
           = (Inl (ValueError (InvalidPixelsize ''lowmag'' 100 0)), ctrl')
         \<and> tem_stage_xy ctrl' = (7, 9)
         \<and> tem_events ctrl' = [SetMode ''lowmag'', SetMagnification 100])"
proof -
  have h1: "lookup_pixelsize demo_stage_env (requested_mode demo_tem (Some ''lowmag'') (Some 100))
       (requested_mag demo_tem (Some ''lowmag'') (Some 100)) = Inr 0"
    by (simp add: lookup_pixelsize_def requested_mode_def requested_mag_def truthy_str_def
        truthy_int_def demo_stage_env_def)
  have h2: "(0 :: real) = 0 \<or> (0 :: real) = 1" by simp
  have r: "requested_mode demo_tem (Some ''lowmag'') (Some 100) = ''lowmag''"
    "requested_mag demo_tem (Some ''lowmag'') (Some 100) = 100"
    by (simp_all add: requested_mode_def requested_mag_def truthy_str_def truthy_int_def)
  have t: "tem_stage_xy demo_tem = (7, 9)" "tem_events demo_tem = []"
    by (simp_all add: demo_tem_def)
  from C5_invalid_pixelsize_fails_fast [OF h1 h2, of module_as_written "1 / 2" 40000 3 15 False
      "Some ''data''"] h1
  show ?thesis
    by (simp add: r t truthy_str_def truthy_int_def)
qed

text \<open>With a calibrated pixel size the same call does move the stage: here twice along
  each axis, returning to the start after each axis.\<close>

lemma calibrate_stage_valid_pixelsize_moves_stage:
  "\<exists>m ctrl'. calibrate_stage module_as_written demo_stage_env demo_tem (Some ''lowmag'')
                (Some 200) (1 / 2) 40000 3 15 False (Some ''data'') = (Inr m, ctrl')
     \<and> filter (\<lambda>e. case e of StageMoveBacklash x y \<Rightarrow> True | StageSetXY x y \<Rightarrow> True | _ \<Rightarrow> False)
          (tem_events ctrl')
        = [StageMoveBacklash 10247 9, StageMoveBacklash 20487 9, StageSetXY 7 9,
           StageMoveBacklash 7 10249, StageMoveBacklash 7 20489, StageSetXY 7 9]"
  by (simp add: calibrate_stage_def calibrate_stage_from_stagepos_def lookup_pixelsize_def
      n_step_along_def getImage_def module_as_written_def demo_stage_env_def demo_tem_def
      truthy_str_def truthy_int_def emit_def Let_def get_outlier_filter_def
      exact_numlib_def and_then_def exact_zscore_def exact_mean_def exact_std_def np_divide_def
      exact_norm_def sqrt_25 np_mask_def mat_div_def upt_rec)

section \<open>Properties of the sweep over all magnifications\<close>

text \<open>
  Claim C6 asks that the sweep logs an invalid pixel size and carries on to the end.
  In the module as it is written the sweep never gets that far: \<open>drcs\<close> is read at the
  first magnification, the name is bound nowhere, and the \<open>NameError\<close> is not the
  \<open>KeyError\<close> the surrounding handler catches.  Here the low magnification 100 has an
  invalid pixel size; the sweep ends with the \<open>NameError\<close> whatever the configuration
  and the microscope are.
\<close>

theorem C6_sweep_stops_at_the_unbound_name:
  "fst (calibrate_stage_all module_as_written env ctrl
          (Some [(''lowmag'', [100, 200]), (''mag1'', [1000])]) (8 / 10) 40000 5 9 False)
     = Inl (NameError ''drcs'')"
  by (simp add: calibrate_stage_all_def module_as_written_def)

text \<open>
  The handler itself does what the claim describes.  Were \<open>drcs\<close> bound, a
  magnification with an invalid pixel size would add nothing to the dictionary, print
  the exception and leave the loop to go on with the remaining magnifications.
\<close>

lemma mags_loop_tolerates_invalid_pixelsize:
  assumes "g_drcs g = Some drcs" and "lookup_drc drcs mode mag = Some drc"
    and "mode \<noteq> []" and "mag \<noteq> 0"
    and "lookup_pixelsize env mode mag = Inr pixelsize"
    and "pixelsize = 0 \<or> pixelsize = 1"
  shows "mags_loop g env overlap min_n_step max_n_step save mode (mag # mags) ctrl cfg
       = mags_loop g env overlap min_n_step max_n_step save mode mags
           (ctrl\<lparr>tem_mode := mode, tem_magnification := mag,
                 tem_events := tem_events ctrl @
                   (if save
                    then [MakeWorkSubdirectory
                            (get_new_work_subdirectory env (''stagematrix_'' @ mode))]
                    else []) @
                   [Print (PrintCalibrating mode mag), SetMode mode, SetMagnification mag,
                    Print (PrintException (ValueError (InvalidPixelsize mode mag pixelsize)))]\<rparr>)
           cfg"
  using assms
  by (auto simp: calibrate_stage_def emit_def Let_def truthy_str_def truthy_int_def)

lemma mags_loop_skips_missing_drc:
  assumes "g_drcs g = Some drcs" and "lookup_drc drcs mode mag = None"
  shows "mags_loop g env overlap min_n_step max_n_step False mode (mag # mags) ctrl cfg
       = mags_loop g env overlap min_n_step max_n_step False mode mags ctrl cfg"
  using assms by simp

text \<open>So a sweep over magnifications that all fail the check would still return the
  dictionary it started the mode with.\<close>

lemma mags_loop_all_invalid:
  assumes "g_drcs g = Some drcs" and "mode \<noteq> []"
    and "\<forall>mag\<in>set mags. mag \<noteq> 0 \<and> lookup_drc drcs mode mag \<noteq> None
           \<and> (lookup_pixelsize env mode mag = Inr 0 \<or> lookup_pixelsize env mode mag = Inr 1)"
  shows "fst (mags_loop g env overlap min_n_step max_n_step save mode mags ctrl cfg) = Inr cfg"
  using assms(3)
proof (induction mags arbitrary: ctrl)
  case Nil
  then show ?case by simp
next
  case (Cons mag mags)
  from Cons.prems obtain drc where drc: "lookup_drc drcs mode mag = Some drc" by auto
  from Cons.prems have m0: "mag \<noteq> 0" by simp
  from Cons.prems obtain pixelsize where ps: "lookup_pixelsize env mode mag = Inr pixelsize"
    "pixelsize = 0 \<or> pixelsize = 1" by auto
  from Cons.prems have rest: "\<forall>mag\<in>set mags. mag \<noteq> 0 \<and> lookup_drc drcs mode mag \<noteq> None
           \<and> (lookup_pixelsize env mode mag = Inr 0 \<or> lookup_pixelsize env mode mag = Inr 1)"
    by simp
  show ?case
    unfolding mags_loop_tolerates_invalid_pixelsize [OF assms(1) drc assms(2) m0 ps]
    by (rule Cons.IH [OF rest])
qed

section \<open>Properties of the auto-mode set-up\<close>

lemma py_slice_inside:
  assumes "0 \<le> a" and "a \<le> b" and "b \<le> int (length xs)"
  shows "py_slice xs a b = take (nat (b - a)) (drop (nat a) xs)"
    and "length (py_slice xs a b) = nat (b - a)"
proof -
  have lo: "slice_index a (length xs) = nat a"
    using assms by (simp add: slice_index_def)
  have hi: "slice_index b (length xs) = nat b"
    using assms by (simp add: slice_index_def)
  have d: "nat b - nat a = nat (b - a)" using assms by simp
  show "py_slice xs a b = take (nat (b - a)) (drop (nat a) xs)"
    by (simp add: py_slice_def lo hi d)
  then show "length (py_slice xs a b) = nat (b - a)"
    using assms by simp
qed

lemma set_py_slice: "set (py_slice xs a b) \<subseteq> set xs"
proof -
  have "set (py_slice xs a b) \<subseteq> set (drop (slice_index a (length xs)) xs)"
    unfolding py_slice_def Let_def by (rule set_take_subset)
  also have "\<dots> \<subseteq> set xs" by (rule set_drop_subset)
  finally show ?thesis .
qed

lemma window_size_of_even: "even (window_size_of bb)"
  by (cases bb) (auto simp: window_size_of_def Let_def split: prod.splits)

lemma window_size_of_cases:
  "window_size_of (y1, x1, y2, x2) = py_int (of_int (y2 - y1) / 1.414)
   \<or> window_size_of (y1, x1, y2, x2) = py_int (of_int (y2 - y1) / 1.414) + 1"
  by (simp add: window_size_of_def Let_def)

lemma window_size_of_nonneg: "y1 \<le> y2 \<Longrightarrow> 0 \<le> window_size_of (y1, x1, y2, x2)"
  by (simp add: window_size_of_def Let_def py_int_def)

lemma py_int_window_bounds:
  assumes "even w" and "0 \<le> c - of_int (w div 2)" and "0 \<le> w"
  shows "py_int (c - of_int (w div 2)) = \<lfloor>c\<rfloor> - w div 2"
    and "py_int (c + of_int (w div 2)) = \<lfloor>c\<rfloor> + w div 2"
proof -
  show "py_int (c - of_int (w div 2)) = \<lfloor>c\<rfloor> - w div 2"
    using assms(2) by (simp add: py_int_def)
  have "0 \<le> (of_int (w div 2) :: real)" using assms(3) by simp
  then have "0 \<le> c + of_int (w div 2)" using assms(2) by linarith
  then show "py_int (c + of_int (w div 2)) = \<lfloor>c\<rfloor> + w div 2"
    by (simp add: py_int_def)
qed

lemma crop_shape:
  assumes "0 \<le> a1" "a1 \<le> b1" "b1 \<le> int (length img)"
    and "0 \<le> a2" "a2 \<le> b2" "\<forall>row\<in>set img. b2 \<le> int (length row)"
  shows "length (crop img a1 b1 a2 b2) = nat (b1 - a1)
         \<and> (\<forall>row\<in>set (crop img a1 b1 a2 b2). length row = nat (b2 - a2))"
proof -
  have "length (crop img a1 b1 a2 b2) = nat (b1 - a1)"
    using py_slice_inside(2) [OF assms(1-3)] by (simp add: crop_def)
  moreover have "length (py_slice row a2 b2) = nat (b2 - a2)" if "row \<in> set (py_slice img a1 b1)" for row
  proof -
    have "row \<in> set img" using that set_py_slice [of img a1 b1] by (rule subsetD [rotated])
    then have "b2 \<le> int (length row)" using assms(6) by blast
    then show ?thesis using py_slice_inside(2) [OF assms(4,5)] by blast
  qed
  ultimately show ?thesis by (auto simp: crop_def)
qed

text \<open>
  Claim C7, amended.  When the detector finds exactly one region in the reference
  image, the side \<open>w\<close> of the crop window is the height \<open>y2 - y1\<close> of the region's
  bounding box divided by 1.414, truncated to an integer and increased by one when
  that integer is odd; so \<open>w\<close> is even.  The stored reference crop is
  \<open>img0[a1:b1, a2:b2]\<close> with the bounds \<open>int(c - w/2)\<close> and \<open>int(c + w/2)\<close> around
  the centroid; when that window lies inside the image it is the \<open>w\<close> by \<open>w\<close> window
  from \<open>floor(c) - w/2\<close> to \<open>floor(c) + w/2\<close> in each direction.
\<close>

theorem C7_window_from_bbox_height:
  assumes "find_holes env img0 = [p]"
    and "bbox p = (y1, x1, y2, x2)"
    and "weighted_centroid p = (cy, cx)"
  shows "\<exists>a sc' w. auto_setup env self img0 sc = (Some a, sc')
         \<and> window_size a = w
         \<and> even w
         \<and> (w = py_int (of_int (y2 - y1) / 1.414) \<or> w = py_int (of_int (y2 - y1) / 1.414) + 1)
         \<and> img0_cropped a =
              crop img0 (py_int (cy - of_int (w div 2))) (py_int (cy + of_int (w div 2)))
                        (py_int (cx - of_int (w div 2))) (py_int (cx + of_int (w div 2)))
         \<and> (y1 \<le> y2 \<and> 0 \<le> cy - of_int (w div 2) \<and> \<lfloor>cy\<rfloor> + w div 2 \<le> int (length img0)
              \<and> 0 \<le> cx - of_int (w div 2) \<and> (\<forall>row\<in>set img0. \<lfloor>cx\<rfloor> + w div 2 \<le> int (length row))
            \<longrightarrow> img0_cropped a =
                  crop img0 (\<lfloor>cy\<rfloor> - w div 2) (\<lfloor>cy\<rfloor> + w div 2) (\<lfloor>cx\<rfloor> - w div 2) (\<lfloor>cx\<rfloor> + w div 2)
                \<and> length (img0_cropped a) = nat w
                \<and> (\<forall>row\<in>set (img0_cropped a). length row = nat w))"
proof -
  define w where "w = window_size_of (bbox p)"
  have ev: "even w" unfolding w_def by (rule window_size_of_even)
  have cs: "w = py_int (of_int (y2 - y1) / 1.414) \<or> w = py_int (of_int (y2 - y1) / 1.414) + 1"
    unfolding w_def assms(2) by (rule window_size_of_cases)
  define a where "a = \<lparr>diff_focus_proper = difffocus sc, diff_focus_defocused = self_diff_defocus self,
       bs_x0 = fst (beamshift sc), bs_y0 = snd (beamshift sc), crystal_pos = (cy, cx), window_size = w,
       img0_cropped = crop_around img0 (cy, cx) w, cc = (0, 0)\<rparr>"
  have su: "\<exists>sc'. auto_setup env self img0 sc = (Some a, sc')"
    by (simp add: auto_setup_def assms Let_def a_def w_def set_difffocus_def record_event_def)
  have wa: "window_size a = w" by (simp add: a_def)
  have cr: "img0_cropped a =
              crop img0 (py_int (cy - of_int (w div 2))) (py_int (cy + of_int (w div 2)))
                        (py_int (cx - of_int (w div 2))) (py_int (cx + of_int (w div 2)))"
    by (simp add: a_def crop_around_def Let_def)
  have fit: "img0_cropped a =
                  crop img0 (\<lfloor>cy\<rfloor> - w div 2) (\<lfloor>cy\<rfloor> + w div 2) (\<lfloor>cx\<rfloor> - w div 2) (\<lfloor>cx\<rfloor> + w div 2)
                \<and> length (img0_cropped a) = nat w
                \<and> (\<forall>row\<in>set (img0_cropped a). length row = nat w)"
    if h: "y1 \<le> y2" "0 \<le> cy - of_int (w div 2)" "\<lfloor>cy\<rfloor> + w div 2 \<le> int (length img0)"
       "0 \<le> cx - of_int (w div 2)" "\<forall>row\<in>set img0. \<lfloor>cx\<rfloor> + w div 2 \<le> int (length row)"
  proof -
    have w0: "0 \<le> w" unfolding w_def assms(2) using h(1) by (rule window_size_of_nonneg)
    have eq: "img0_cropped a =
                  crop img0 (\<lfloor>cy\<rfloor> - w div 2) (\<lfloor>cy\<rfloor> + w div 2) (\<lfloor>cx\<rfloor> - w div 2) (\<lfloor>cx\<rfloor> + w div 2)"
      by (simp add: cr py_int_window_bounds [OF ev h(2) w0] py_int_window_bounds [OF ev h(4) w0])
    have a1: "0 \<le> \<lfloor>cy\<rfloor> - w div 2" using h(2) by (simp add: le_floor_iff)
    have a2: "0 \<le> \<lfloor>cx\<rfloor> - w div 2" using h(4) by (simp add: le_floor_iff)
    have o1: "\<lfloor>cy\<rfloor> - w div 2 \<le> \<lfloor>cy\<rfloor> + w div 2" using w0 by simp
    have o2: "\<lfloor>cx\<rfloor> - w div 2 \<le> \<lfloor>cx\<rfloor> + w div 2" using w0 by simp
    have sz: "(\<lfloor>cy\<rfloor> + w div 2) - (\<lfloor>cy\<rfloor> - w div 2) = w" "(\<lfloor>cx\<rfloor> + w div 2) - (\<lfloor>cx\<rfloor> - w div 2) = w"
      using ev by auto
    from crop_shape [OF a1 o1 h(3) a2 o2 h(5)] eq sz show ?thesis by simp
  qed
  from su obtain sc' where "auto_setup env self img0 sc = (Some a, sc')" by blast
  with wa ev cs cr fit show ?thesis by blast
qed


lemma sqrt_10000: "sqrt 10000 = 100"
  by (rule real_sqrt_unique) simp_all

lemma seventy_below: "(70 :: real) < 100 / sqrt 2"
proof -
  have "sqrt 2 < sqrt ((10 / 7)\<^sup>2)"
    unfolding real_sqrt_less_iff by (simp add: power2_eq_square)
  then have "sqrt 2 < 10 / 7" by simp
  then have "70 * sqrt 2 < 100" by simp
  then show ?thesis by (simp add: pos_less_divide_eq)
qed

text \<open>
  Claim C7 as stated fails.  For a region whose bounding box is 100 by 100 the
  diagonal divided by the square root of 2 is 100, an even integer; the window the
  code stores has side 70, which is also below the box height divided by the square
  root of 2, so it is not that value rounded up either.
\<close>

theorem C7_diagonal_counterexample:
  "(\<exists>a sc'. auto_setup demo_cred (enable_autotrack (Experiment_init 1 False ''simulate'') 5 7)
               [[0]] demo_scope = (Some a, sc')
      \<and> window_size a = 70)
   \<and> bbox demo_region = (0, 0, 100, 100)
   \<and> sqrt ((100 - 0)\<^sup>2 + (100 - 0)\<^sup>2) / sqrt 2 = 100
   \<and> (70 :: real) < (100 - 0) / sqrt 2"
proof -
  have 1: "\<exists>a sc'. auto_setup demo_cred (enable_autotrack (Experiment_init 1 False ''simulate'') 5 7)
               [[0]] demo_scope = (Some a, sc') \<and> window_size a = 70"
    by (simp add: auto_setup_def demo_cred_def demo_region_def Let_def window_size_of_def
        py_int_def)
  have "sqrt ((100 - 0)\<^sup>2 + (100 - 0)\<^sup>2) / sqrt 2 = sqrt (20000 / 2)"
    unfolding real_sqrt_divide by simp
  then have 2: "sqrt ((100 - 0)\<^sup>2 + (100 - 0)\<^sup>2) / sqrt 2 = 100"
    by (simp add: sqrt_10000)
  from 1 2 seventy_below show ?thesis by (simp add: demo_region_def)
qed

text \<open>An instance: a 10 by 10 image with one region whose box is 6 high around (5, 5); the
  window has side 4 and lies inside the image.\<close>

theorem C7_witness:
  "find_holes demo_cred_small (replicate 10 (replicate 10 0)) = [demo_small_region]
   \<and> bbox demo_small_region = (2, 2, 8, 8)
   \<and> weighted_centroid demo_small_region = (5, 5)
   \<and> (\<exists>a sc'. auto_setup demo_cred_small (enable_autotrack (Experiment_init 1 False ''simulate'') 5 7)
                 (replicate 10 (replicate 10 0)) demo_scope = (Some a, sc')
        \<and> window_size a = 4
        \<and> img0_cropped a = [[0, 0, 0, 0], [0, 0, 0, 0], [0, 0, 0, 0], [0, 0, 0, 0]])"
proof -
  have h1: "find_holes demo_cred_small (replicate 10 (replicate 10 0)) = [demo_small_region]"
    by (simp add: demo_cred_small_def)
  have h2: "bbox demo_small_region = (2, 2, 8, 8)" by (simp add: demo_small_region_def)
  have h3: "weighted_centroid demo_small_region = (5, 5)" by (simp add: demo_small_region_def)
  have w: "window_size_of (2, 2, 8, 8) = 4"
    by (simp add: window_size_of_def py_int_def)
  have c: "crop_around (replicate 10 (replicate 10 (0::nat))) (5, 5) 4
             = [[0, 0, 0, 0], [0, 0, 0, 0], [0, 0, 0, 0], [0, 0, 0, 0]]"
    by (simp add: crop_around_def crop_def py_slice_def slice_index_def py_int_def Let_def
        numeral_eq_Suc)
  have e: "\<exists>a sc'. auto_setup demo_cred_small (enable_autotrack (Experiment_init 1 False ''simulate'') 5 7)
                 (replicate 10 (replicate 10 0)) demo_scope = (Some a, sc')
        \<and> window_size a = 4
        \<and> img0_cropped a = [[0, 0, 0, 0], [0, 0, 0, 0], [0, 0, 0, 0], [0, 0, 0, 0]]"
    by (simp add: auto_setup_def h1 h2 h3 w c Let_def)
  from C7_window_from_bbox_height [OF h1 h2 h3] h1 h2 h3 e
  show ?thesis by simp
qed


section \<open>Properties of the recording loop\<close>

lemma track_not_single:
  assumes "length (find_holes env (fi_image fr)) \<noteq> 1"
  shows "track env fr a l sc = Break l (record_event PrintAtLeastTwoApertures sc)"
proof (cases "find_holes env (fi_image fr)")
  case Nil
  then show ?thesis by (simp add: track_def)
next
  case (Cons p ps)
  with assms obtain q qs where "ps = q # qs" by (cases ps) auto
  with Cons show ?thesis by (simp add: track_def)
qed

lemma track_single:
  assumes "find_holes env (fi_image fr) = [p]"
  shows "\<exists>l' sc'. track env fr a l sc = Continue l' sc'
           \<and> l_i l' = l_i l + int (fi_skipped fr) + 1
           \<and> l_buffer l' = l_buffer l \<and> l_image_buffer l' = l_image_buffer l
           \<and> (\<exists>a'. l_auto l' = Some a')"
  using assms by (simp add: track_def Let_def)

lemma loop_body_auto_tracking:
  assumes "self_mode self = ''auto''"
    and "self_image_interval self \<noteq> 0"
    and "l_i l mod self_image_interval self = 0"
    and "l_i l \<noteq> 1"
    and "l_auto l = Some a"
  shows "loop_body env self t0 fr l sc =
           track env fr a
             (l\<lparr>l_image_buffer := l_image_buffer l @ [(l_i l, fi_image fr, fi_header fr)]\<rparr>)
             (sc\<lparr>difffocus := diff_focus_proper a,
                 scope_events := scope_events sc @
                   [SetDiffFocus (diff_focus_defocused a), GetImage (self_expt self / 10),
                    SetDiffFocus (diff_focus_proper a), PrintSavedToImageBuffer (l_i l)]\<rparr>)"
  using assms
  by (simp add: loop_body_def Let_def set_difffocus_def record_event_def)

lemma loop_body_normal:
  assumes "self_image_interval self \<noteq> 0"
    and "l_i l mod self_image_interval self \<noteq> 0"
  shows "\<exists>sc'. loop_body env self t0 fr l sc =
           Continue
             (l\<lparr>l_buffer := l_buffer l @ [(l_i l, fi_image fr, fi_header fr)], l_i := l_i l + 1\<rparr>)
             sc'
         \<and> scope_events sc' = scope_events sc @
              (if self_mode self = ''auto''
               then [GetImage (self_expt self), PrintSavedToBuffer (l_i l)]
               else [GetImage (self_expt self)])
         \<and> difffocus sc' = difffocus sc \<and> beamshift sc' = beamshift sc"
  using assms
  by (simp add: loop_body_def Let_def record_event_def)

lemma loop_body_tracking_unbound:
  assumes "self_mode self \<noteq> ''auto''"
    and "self_image_interval self \<noteq> 0"
    and "l_i l mod self_image_interval self = 0"
    and "l_i l \<noteq> 1"
    and "l_auto l = None"
  shows "loop_body env self t0 fr l sc = Raise (UnboundLocalError ''diff_focus_defocused'') l sc"
  using assms by (simp add: loop_body_def)

lemma loop_body_first_pass_tracking_divides_by_zero:
  assumes "self_image_interval self = 1 \<or> self_image_interval self = - 1" and "l_i l = 1"
  shows "loop_body env self t0 fr l sc = Raise ZeroDivisionError l sc"
  using assms by (auto simp: loop_body_def)

lemma auto_setup_not_single:
  assumes "length (find_holes env img0) \<noteq> 1"
  shows "auto_setup env self img0 sc =
           (None, sc\<lparr>scope_events := scope_events sc @
                    [SetDiffFocus (self_diff_defocus self), GetImage (self_expt self / 5),
                     SetDiffFocus (difffocus sc), PrintFindAnotherCrystal]\<rparr>)"
proof (cases "find_holes env img0")
  case Nil
  then show ?thesis
    by (simp add: auto_setup_def Let_def set_difffocus_def record_event_def)
next
  case (Cons p ps)
  with assms obtain q qs where "ps = q # qs" by (cases ps) auto
  with Cons show ?thesis
    by (simp add: auto_setup_def Let_def set_difffocus_def record_event_def)
qed

text \<open>A run of passes none of which falls on a multiple of the interval records one
  diffraction frame per pass and advances the counter by one per pass.\<close>

lemma recording_loop_normal_passes:
  assumes "self_image_interval self \<noteq> 0"
    and "\<forall>k. l_i l \<le> k \<and> k < l_i l + int (length frs) \<longrightarrow> k mod self_image_interval self \<noteq> 0"
  shows "\<exists>l' sc'. recording_loop env self t0 frs l sc = Stopped l' sc'
           \<and> l_i l' = l_i l + int (length frs)
           \<and> length (l_buffer l') = length (l_buffer l) + length frs
           \<and> l_image_buffer l' = l_image_buffer l"
  using assms(2)
proof (induction frs arbitrary: l sc)
  case Nil
  then show ?case by simp
next
  case (Cons fr frs)
  have here: "l_i l mod self_image_interval self \<noteq> 0"
    using Cons.prems by simp
  define l1 where "l1 = l\<lparr>l_buffer := l_buffer l @ [(l_i l, fi_image fr, fi_header fr)], l_i := l_i l + 1\<rparr>"
  from loop_body_normal [OF assms(1) here]
  obtain sc1 where b: "loop_body env self t0 fr l sc = Continue l1 sc1"
    unfolding l1_def by blast
  have "\<forall>k. l_i l1 \<le> k \<and> k < l_i l1 + int (length frs) \<longrightarrow> k mod self_image_interval self \<noteq> 0"
    using Cons.prems by (simp add: l1_def)
  from Cons.IH [OF this, of sc1]
  obtain l' sc' where r: "recording_loop env self t0 frs l1 sc1 = Stopped l' sc'"
    "l_i l' = l_i l1 + int (length frs)"
    "length (l_buffer l') = length (l_buffer l1) + length frs"
    "l_image_buffer l' = l_image_buffer l1" by blast
  then show ?case by (simp add: b l1_def)
qed

lemma finish_collection_osangle:
  "ic_osangle (s_img_conv (fst (finish_collection env self startangle t0 t1 angle magnification rnd l sc)))
     = \<bar>ic_endangle (s_img_conv (fst (finish_collection env self startangle t0 t1 angle
                                          magnification rnd l sc))) - startangle\<bar>
       / of_int (l_i l + 1)"
  by (simp add: finish_collection_def Let_def)

lemma finish_collection_hands_over:
  "\<exists>s sc'. finish_collection env self startangle t0 t1 angle magnification rnd l sc = (s, sc')
     \<and> ic_buffer (s_img_conv s) = l_buffer l
     \<and> ic_startangle (s_img_conv s) = startangle
     \<and> ic_rotation_angle (s_img_conv s) = camera_rotation_vs_stage_xy env
     \<and> ic_acquisition_time (s_img_conv s) = (t1 - t0) / of_int (l_i l + 1)
     \<and> ic_camera_length (s_img_conv s)
         = (if self_camtype self = ''simulate'' then 300 else py_int magnification)
     \<and> s_tiff_image s = l_image_buffer l"
  by (simp add: finish_collection_def Let_def)


lemmas run_defs =
  start_collection_def record_and_finish_def finish_collection_def loop_body_def track_def
  auto_setup_def Experiment_init_def enable_autotrack_def enable_image_interval_def
  record_event_def set_difffocus_def set_beamshift_def Let_def

lemmas demo_defs =
  demo_cred_def demo_region_def demo_region2_def demo_scope_def demo_frame_def
  demo_input_def demo_auto_def demo_locals_def

text \<open>
  Claim C2 asks for a tracking frame whenever the counter is a multiple of the
  interval.  In image-interval mode the loop reaches that branch and raises instead:
  the two focus values it needs are bound only by the auto-mode set-up.  With interval
  5 the first four passes record frames 1 to 4; the fifth raises
  \<open>UnboundLocalError\<close> before the focus is changed or an image is taken, and no
  tracking frame is ever stored.
\<close>

theorem C2_manual_tracking_pass_raises:
  "\<exists>l sc'. start_collection env (enable_image_interval (Experiment_init expt ub ''simulate'') 5 d)
              (inp\<lparr>in_frames := [f1, f2, f3, f4, f5]\<rparr>) sc
              = Raised (UnboundLocalError ''diff_focus_defocused'') l sc'
     \<and> map fst (l_buffer l) = [1, 2, 3, 4] \<and> l_image_buffer l = [] \<and> l_i l = 5"
  by (simp add: start_collection_def Experiment_init_def enable_image_interval_def
      record_and_finish_def loop_body_def Let_def record_event_def)

text \<open>
  In auto mode the branch works as the claim describes, for an interval other than 0,
  1 and -1: the pass at a multiple of the interval sets the defocused value, takes the
  image at a tenth of the exposure, restores the focus and stores the image as a
  tracking frame (lemma \<open>loop_body_auto_tracking\<close>); every other pass stores a
  diffraction frame taken at the full exposure (lemma \<open>loop_body_normal\<close>).  A run of
  22 passes with interval 5, no skipped frame and one region in every tracking image
  has its tracking frames at 5, 10, 15 and 20.
\<close>

lemma auto_run_of_22_passes:
  "\<exists>s sc'. start_collection demo_cred (enable_autotrack (Experiment_init 1 False ''simulate'') 5 7)
              (demo_input [[0]] (replicate 22 (demo_frame 0))) demo_scope
              = Finished s sc'
     \<and> map fst (s_tiff_image s) = [5, 10, 15, 20]
     \<and> map fst (ic_buffer (s_img_conv s))
          = [1, 2, 3, 4, 6, 7, 8, 9, 11, 12, 13, 14, 16, 17, 18, 19, 21, 22]"
  by (simp add: run_defs demo_defs numeral_eq_Suc)

text \<open>With interval 1 the first pass is a tracking pass and divides by the zero frames
  recorded so far.\<close>

lemma auto_run_with_interval_one_raises:
  "\<exists>l sc'. start_collection demo_cred (enable_autotrack (Experiment_init 1 False ''simulate'') 1 7)
              (demo_input [[0]] [demo_frame 0, demo_frame 0]) demo_scope
              = Raised ZeroDivisionError l sc'
     \<and> l_buffer l = [] \<and> l_image_buffer l = []"
  by (simp add: run_defs demo_defs)

lemma recording_loop_append:
  assumes "recording_loop env self t0 pre l0 sc0 = Stopped l sc"
  shows "recording_loop env self t0 (pre @ rest) l0 sc0 = recording_loop env self t0 rest l sc"
  using assms
proof (induction pre arbitrary: l0 sc0)
  case Nil
  then show ?case by simp
next
  case (Cons fr pre)
  then show ?case
    by (cases "loop_body env self t0 fr l0 sc0") simp_all
qed

lemma ambiguous_pass_breaks:
  assumes "self_mode self = ''auto''"
    and "self_image_interval self \<noteq> 0"
    and "l_i l mod self_image_interval self = 0"
    and "l_i l \<noteq> 1"
    and "l_auto l = Some a"
    and "length (find_holes env (fi_image fr)) \<noteq> 1"
  shows "recording_loop env self t0 (fr # frs) l sc =
           Broke (l\<lparr>l_image_buffer := l_image_buffer l @ [(l_i l, fi_image fr, fi_header fr)]\<rparr>)
             (sc\<lparr>difffocus := diff_focus_proper a,
                 scope_events := scope_events sc @
                   [SetDiffFocus (diff_focus_defocused a), GetImage (self_expt self / 10),
                    SetDiffFocus (diff_focus_proper a), PrintSavedToImageBuffer (l_i l),
                    PrintAtLeastTwoApertures]\<rparr>)
             frs"
  using assms(6)
  by (simp add: loop_body_auto_tracking [OF assms(1-5)] track_not_single record_event_def)

lemma record_and_finish_unfold:
  assumes "rotation_start self inp = Some startangle"
  shows "record_and_finish env self inp auto sc =
          (case recording_loop env self (in_t0 inp) (in_frames inp)
                  (recording_start_locals auto) (recording_start_scope self sc) of
             Failed e l sc3 \<Rightarrow> Raised e l sc3
           | Stopped l sc3 \<Rightarrow>
               (case finish_collection env self startangle (in_t0 inp) (in_t1 inp)
                       (in_end_angle inp) (in_magnification inp) (in_random inp) l sc3 of
                  (s, sc4) \<Rightarrow> Finished s sc4)
           | Broke l sc3 unused \<Rightarrow>
               (case finish_collection env self startangle (in_t0 inp) (in_t1 inp)
                       (in_end_angle inp) (in_magnification inp) (in_random inp) l sc3 of
                  (s, sc4) \<Rightarrow> Finished s sc4))"
  using assms
  by (simp add: record_and_finish_def rotation_start_def recording_start_locals_def
      recording_start_scope_def Let_def split: if_splits)

text \<open>
  Claim C3, amended.  In auto mode, when the passes so far have all gone through and
  the next one is a tracking pass whose image shows more than one region, the
  tracking frame is stored, the message is printed and the recording ends there,
  however many further passes the stop event would have allowed: the collection goes
  on to its closing steps and finishes.  The frames handed to the conversion are the
  diffraction frames recorded before that pass, the beam shift is the one set before
  it, the angles are booked as after any run, and after the message the microscope
  receives only the closing commands, no further image request.
\<close>

theorem C3_ambiguity_ends_the_recording:
  assumes "self_mode self = ''auto''"
    and "self_image_interval self \<noteq> 0"
    and "auto_setup env self (in_img0 inp) sc = (Some a0, sc0)"
    and "rotation_start self inp = Some startangle"
    and "in_frames inp = pre @ fr # frs"
    and "recording_loop env self (in_t0 inp) pre (recording_start_locals (Some a0))
           (recording_start_scope self sc0) = Stopped l sc1"
    and "l_i l mod self_image_interval self = 0"
    and "l_i l \<noteq> 1"
    and "l_auto l = Some a"
    and "1 < length (find_holes env (fi_image fr))"
  shows "\<exists>s sc'. start_collection env self inp sc = Finished s sc'
           \<and> ic_buffer (s_img_conv s) = l_buffer l
           \<and> s_log_number_of_frames s = length (l_buffer l)
           \<and> s_tiff_image s = l_image_buffer l @ [(l_i l, fi_image fr, fi_header fr)]
           \<and> ic_startangle (s_img_conv s) = startangle
           \<and> ic_endangle (s_img_conv s)
               = (if self_camtype self = ''simulate'' then startangle + in_random inp * 50
                  else in_end_angle inp)
           \<and> ic_osangle (s_img_conv s)
               = \<bar>ic_endangle (s_img_conv s) - startangle\<bar> / of_int (l_i l + 1)
           \<and> beamshift sc' = beamshift sc1
           \<and> scope_events sc' = scope_events sc1 @
                [SetDiffFocus (diff_focus_defocused a), GetImage (self_expt self / 10),
                 SetDiffFocus (diff_focus_proper a), PrintSavedToImageBuffer (l_i l),
                 PrintAtLeastTwoApertures, CamUnblock] @
                (if self_unblank_beam self then [SetBeamBlank True] else [])"
proof -
  have n1: "length (find_holes env (fi_image fr)) \<noteq> 1" using assms(10) by simp
  have loop: "recording_loop env self (in_t0 inp) (in_frames inp)
                (recording_start_locals (Some a0)) (recording_start_scope self sc0)
              = Broke (l\<lparr>l_image_buffer := l_image_buffer l @ [(l_i l, fi_image fr, fi_header fr)]\<rparr>)
                  (sc1\<lparr>difffocus := diff_focus_proper a,
                      scope_events := scope_events sc1 @
                        [SetDiffFocus (diff_focus_defocused a), GetImage (self_expt self / 10),
                         SetDiffFocus (diff_focus_proper a), PrintSavedToImageBuffer (l_i l),
                         PrintAtLeastTwoApertures]\<rparr>)
                  frs"
    unfolding assms(5) recording_loop_append [OF assms(6)]
    by (rule ambiguous_pass_breaks [OF assms(1,2,7,8,9) n1])
  have "start_collection env self inp sc = record_and_finish env self inp (Some a0) sc0"
    using assms(1,3) by (simp add: start_collection_def)
  then show ?thesis
    by (simp add: record_and_finish_unfold [OF assms(4)] loop finish_collection_def Let_def
        record_event_def)
qed

text \<open>An instance: interval 2, so the second pass is a tracking pass; its image shows two
  regions, and two more passes are available.\<close>

theorem C3_witness:
  "\<exists>a0 sc0 l sc1.
     self_mode (enable_autotrack (Experiment_init 1 False ''simulate'') 2 7) = ''auto''
   \<and> self_image_interval (enable_autotrack (Experiment_init 1 False ''simulate'') 2 7) \<noteq> 0
   \<and> auto_setup demo_cred (enable_autotrack (Experiment_init 1 False ''simulate'') 2 7)
        (in_img0 (demo_input [[0]] [demo_frame 0, demo_frame 1, demo_frame 0, demo_frame 0]))
        demo_scope = (Some a0, sc0)
   \<and> rotation_start (enable_autotrack (Experiment_init 1 False ''simulate'') 2 7)
        (demo_input [[0]] [demo_frame 0, demo_frame 1, demo_frame 0, demo_frame 0]) = Some 10
   \<and> in_frames (demo_input [[0]] [demo_frame 0, demo_frame 1, demo_frame 0, demo_frame 0])
        = [demo_frame 0] @ demo_frame 1 # [demo_frame 0, demo_frame 0]
   \<and> recording_loop demo_cred (enable_autotrack (Experiment_init 1 False ''simulate'') 2 7)
        (in_t0 (demo_input [[0]] [demo_frame 0, demo_frame 1, demo_frame 0, demo_frame 0]))
        [demo_frame 0] (recording_start_locals (Some a0))
        (recording_start_scope (enable_autotrack (Experiment_init 1 False ''simulate'') 2 7) sc0)
        = Stopped l sc1
   \<and> l_i l = 2 \<and> l_buffer l = [(1, [[0]], ())] \<and> l_image_buffer l = [] \<and> l_auto l = Some a0
   \<and> 1 < length (find_holes demo_cred (fi_image (demo_frame 1)))
   \<and> (\<exists>s sc'. start_collection demo_cred (enable_autotrack (Experiment_init 1 False ''simulate'') 2 7)
                  (demo_input [[0]] [demo_frame 0, demo_frame 1, demo_frame 0, demo_frame 0])
                  demo_scope = Finished s sc'
         \<and> ic_buffer (s_img_conv s) = [(1, [[0]], ())]
         \<and> s_log_number_of_frames s = 1
         \<and> s_tiff_image s = [(2, [[1]], ())]
         \<and> ic_startangle (s_img_conv s) = 10
         \<and> ic_osangle (s_img_conv s) = 10
         \<and> beamshift sc' = beamshift sc1)"
proof -
  define self where "self = enable_autotrack (Experiment_init 1 False ''simulate'') 2 7"
  define inp :: "(nat, unit) run_input"
    where "inp = demo_input [[0]] [demo_frame 0, demo_frame 1, demo_frame 0, demo_frame 0]"
  define a0 where "a0 = the (fst (auto_setup demo_cred self (in_img0 inp) demo_scope))"
  define sc0 where "sc0 = snd (auto_setup demo_cred self (in_img0 inp) demo_scope)"
  define l :: "(nat, unit) locals"
    where "l = \<lparr>l_i = 2, l_buffer = [(1, [[0]], ())], l_image_buffer = [], l_auto = Some a0\<rparr>"
  define sc1 where "sc1 = (recording_start_scope self sc0)
      \<lparr>scope_events := scope_events (recording_start_scope self sc0) @
         [GetImage (self_expt self), PrintSavedToBuffer 1]\<rparr>"
  have h1: "self_mode self = ''auto''" by (simp add: self_def enable_autotrack_def)
  have h2: "self_image_interval self \<noteq> 0" by (simp add: self_def enable_autotrack_def)
  have h3: "auto_setup demo_cred self (in_img0 inp) demo_scope = (Some a0, sc0)"
    by (simp add: a0_def sc0_def auto_setup_def inp_def demo_input_def demo_cred_def Let_def)
  have h4: "rotation_start self inp = Some 10"
    by (simp add: rotation_start_def self_def inp_def enable_autotrack_def Experiment_init_def
        demo_input_def)
  have h5: "in_frames inp = [demo_frame 0] @ demo_frame 1 # [demo_frame 0, demo_frame 0]"
    by (simp add: inp_def demo_input_def)
  have h6: "recording_loop demo_cred self (in_t0 inp) [demo_frame 0]
              (recording_start_locals (Some a0)) (recording_start_scope self sc0) = Stopped l sc1"
    by (simp add: loop_body_def h1 self_def enable_autotrack_def Experiment_init_def
        recording_start_locals_def l_def sc1_def demo_frame_def record_event_def Let_def)
  have h7: "l_i l mod self_image_interval self = 0"
    by (simp add: l_def self_def enable_autotrack_def)
  have h8: "l_i l \<noteq> 1" by (simp add: l_def)
  have h9: "l_auto l = Some a0" by (simp add: l_def)
  have h10: "1 < length (find_holes demo_cred (fi_image (demo_frame 1)))"
    by (simp add: demo_cred_def demo_frame_def)
  have v: "l_i l = 2" "l_buffer l = [(1, [[0]], ())]" "l_image_buffer l = []"
    "fi_image (demo_frame 1) = [[1]]" "fi_header (demo_frame 1) = ()"
    by (simp_all add: l_def demo_frame_def)
  from C3_ambiguity_ends_the_recording [OF h1 h2 h3 h4 h5 h6 h7 h8 h9 h10]
  obtain s sc' where r: "start_collection demo_cred self inp demo_scope = Finished s sc'"
    "ic_buffer (s_img_conv s) = l_buffer l"
    "s_log_number_of_frames s = length (l_buffer l)"
    "s_tiff_image s = l_image_buffer l @ [(l_i l, fi_image (demo_frame 1), fi_header (demo_frame 1))]"
    "ic_startangle (s_img_conv s) = 10"
    "ic_endangle (s_img_conv s)
       = (if self_camtype self = ''simulate'' then 10 + in_random inp * 50 else in_end_angle inp)"
    "ic_osangle (s_img_conv s) = \<bar>ic_endangle (s_img_conv s) - 10\<bar> / of_int (l_i l + 1)"
    "beamshift sc' = beamshift sc1"
    by blast
  have e: "ic_endangle (s_img_conv s) = 40"
    using r(6)
    by (simp add: self_def inp_def enable_autotrack_def Experiment_init_def demo_input_def)
  have "ic_osangle (s_img_conv s) = 10" using r(7) e by (simp add: v)
  with r v have "\<exists>s sc'. start_collection demo_cred self inp demo_scope = Finished s sc'
         \<and> ic_buffer (s_img_conv s) = [(1, [[0]], ())]
         \<and> s_log_number_of_frames s = 1
         \<and> s_tiff_image s = [(2, [[1]], ())]
         \<and> ic_startangle (s_img_conv s) = 10
         \<and> ic_osangle (s_img_conv s) = 10
         \<and> beamshift sc' = beamshift sc1"
    by auto
  with h1 h2 h3 h4 h5 h6 h9 h10 v show ?thesis
    unfolding self_def inp_def by blast
qed

text \<open>
  Claim C3 as stated fails.  Auto mode with interval 2: the first pass records
  diffraction frame 1, the second is a tracking pass whose image shows two regions.
  The stop event is found unset for two more passes, and yet the collection ends with
  the one diffraction frame: nothing is recorded after the ambiguity.
\<close>

theorem C3_no_recording_after_ambiguity_counterexample:
  "\<exists>s sc'. start_collection demo_cred (enable_autotrack (Experiment_init 1 False ''simulate'') 2 7)
              (demo_input [[0]] [demo_frame 0, demo_frame 1, demo_frame 0, demo_frame 0])
              demo_scope = Finished s sc'
     \<and> map fst (ic_buffer (s_img_conv s)) = [1]
     \<and> map fst (s_tiff_image s) = [2]"
  by (simp add: run_defs demo_defs)

text \<open>
  Claim C9.  In auto mode any number of detected regions other than one takes the
  abort path, zero included.  On the reference image \<open>start_collection\<close> prints its
  message and returns before the camera is blocked and before any frame is recorded.
  On a tracking pass the loop is left with the diffraction frames and the beam shift
  unchanged, the last line printed being the message.
\<close>

theorem C9_any_count_but_one_aborts:
  assumes "self_mode self = ''auto''"
  shows "(length (find_holes env (in_img0 inp)) \<noteq> 1 \<longrightarrow>
           (\<exists>sc'. start_collection env self inp sc = ReturnedNone sc'
              \<and> scope_events sc' = scope_events sc @
                   [SetDiffFocus (self_diff_defocus self), GetImage (self_expt self / 5),
                    SetDiffFocus (difffocus sc), PrintFindAnotherCrystal]))
       \<and> (self_image_interval self \<noteq> 0 \<and> l_i l mod self_image_interval self = 0 \<and> l_i l \<noteq> 1
           \<and> l_auto l = Some a \<and> length (find_holes env (fi_image fr)) \<noteq> 1 \<longrightarrow>
           (\<exists>l' sc'. recording_loop env self t0 (fr # frs) l sc = Broke l' sc' frs
              \<and> l_buffer l' = l_buffer l \<and> beamshift sc' = beamshift sc
              \<and> last (scope_events sc') = PrintAtLeastTwoApertures))"
proof -
  have 1: "length (find_holes env (in_img0 inp)) \<noteq> 1 \<longrightarrow>
           (\<exists>sc'. start_collection env self inp sc = ReturnedNone sc'
              \<and> scope_events sc' = scope_events sc @
                   [SetDiffFocus (self_diff_defocus self), GetImage (self_expt self / 5),
                    SetDiffFocus (difffocus sc), PrintFindAnotherCrystal])"
    using assms by (simp add: start_collection_def auto_setup_not_single)
  have 2: "self_image_interval self \<noteq> 0 \<and> l_i l mod self_image_interval self = 0 \<and> l_i l \<noteq> 1
           \<and> l_auto l = Some a \<and> length (find_holes env (fi_image fr)) \<noteq> 1 \<longrightarrow>
           (\<exists>l' sc'. recording_loop env self t0 (fr # frs) l sc = Broke l' sc' frs
              \<and> l_buffer l' = l_buffer l \<and> beamshift sc' = beamshift sc
              \<and> last (scope_events sc') = PrintAtLeastTwoApertures)"
    using assms
    by (simp add: loop_body_auto_tracking track_not_single record_event_def)
  from 1 2 show ?thesis by simp
qed

text \<open>An instance: no region at all, in the reference image and in a tracking image.\<close>

theorem C9_witness:
  "self_mode (enable_autotrack (Experiment_init 1 False ''simulate'') 2 7) = ''auto''
   \<and> length (find_holes demo_cred (in_img0 (demo_input [[2]] [demo_frame 0]))) = 0
   \<and> (\<exists>sc'. start_collection demo_cred (enable_autotrack (Experiment_init 1 False ''simulate'') 2 7)
                (demo_input [[2]] [demo_frame 0]) demo_scope = ReturnedNone sc'
         \<and> scope_events sc' = [SetDiffFocus 7, GetImage (1 / 5), SetDiffFocus 3,
                                PrintFindAnotherCrystal])
   \<and> length (find_holes demo_cred (fi_image (demo_frame 2))) = 0
   \<and> (\<exists>l' sc'. recording_loop demo_cred (enable_autotrack (Experiment_init 1 False ''simulate'') 2 7)
                   0 [demo_frame 2, demo_frame 0] (demo_locals 2) demo_scope
                   = Broke l' sc' [demo_frame 0]
         \<and> l_buffer l' = [] \<and> beamshift sc' = (0, 0)
         \<and> last (scope_events sc') = PrintAtLeastTwoApertures)"
proof -
  have h: "self_mode (enable_autotrack (Experiment_init 1 False ''simulate'') 2 7) = ''auto''"
    by (simp add: enable_autotrack_def)
  have z: "length (find_holes demo_cred (in_img0 (demo_input [[2]] [demo_frame 0]))) = 0"
    "length (find_holes demo_cred (fi_image (demo_frame 2))) = 0"
    by (simp_all add: demo_defs)
  have v: "self_expt (enable_autotrack (Experiment_init 1 False ''simulate'') 2 7) = 1"
    "self_diff_defocus (enable_autotrack (Experiment_init 1 False ''simulate'') 2 7) = 7"
    "self_image_interval (enable_autotrack (Experiment_init 1 False ''simulate'') 2 7) = 2"
    "l_i (demo_locals 2) = 2" "l_buffer (demo_locals 2) = []"
    "l_auto (demo_locals 2) = Some demo_auto"
    "beamshift demo_scope = (0, 0)" "scope_events demo_scope = []" "difffocus demo_scope = 3"
    by (simp_all add: enable_autotrack_def Experiment_init_def demo_defs)
  from C9_any_count_but_one_aborts [OF h, of demo_cred "demo_input [[2]] [demo_frame 0]"
      demo_scope "demo_locals 2" demo_auto "demo_frame 2" 0 "[demo_frame 0]"] h z
  show ?thesis unfolding v by simp
qed

text \<open>
  Claim C8 asks for the rotation span divided by the number of frames acquired.  The
  code divides by \<open>i + 1\<close>, and the counter \<open>i\<close> starts at 1 and is advanced after every
  frame, so it is already one more than the number of frames when the loop stops.
  Three frames over a span of 30 degrees give an oscillation angle of 30 / 5 = 6, not
  30 / 3 = 10.
\<close>

theorem C8_oscillation_angle_divides_by_two_too_many:
  "\<exists>s sc'. start_collection demo_cred (Experiment_init (1 / 2) False ''simulate'')
              (demo_input [[0]] [demo_frame 0, demo_frame 0, demo_frame 0]) demo_scope
              = Finished s sc'
     \<and> length (ic_buffer (s_img_conv s)) = 3
     \<and> s_tiff_image s = []
     \<and> \<bar>ic_endangle (s_img_conv s) - ic_startangle (s_img_conv s)\<bar> = 30
     \<and> ic_osangle (s_img_conv s) = 6"
  by (simp add: run_defs demo_defs)


end
